theory Spec2Isabelle
  imports Main
begin

section \<open>Values of the program\<close>

text \<open>
  The program (\<^verbatim>\<open>src/capstone_project.py\<close>) works on the Python values that
  \<^verbatim>\<open>response.json()\<close> returns: \<^verbatim>\<open>None\<close>, booleans, integers, strings, lists and
  dictionaries with string keys.  A dictionary is an association list in insertion order;
  a key is looked up with \<open>map_of\<close>.  JSON numbers are restricted to integers: a number
  with a fraction or an exponent is a Python float, which this development leaves out.
  A Python \<^verbatim>\<open>str\<close> is a \<open>string\<close>, one \<open>char\<close> for each character.
\<close>

datatype json =
    JNull
  | JBool bool
  | JInt int
  | JStr string
  | JArr "json list"
  | JObj "(string \<times> json) list"

text \<open>
  The exceptions the program can raise outside the \<^verbatim>\<open>requests\<close> library.  A
  \<^verbatim>\<open>KeyError\<close> carries the key that was looked up, and nothing else.  The program
  itself raises no \<^verbatim>\<open>ValueError\<close>; the display library can.
\<close>

datatype py_error =
    KeyError json
  | TypeError
  | IndexError
  | AttributeError
  | ValueError

text \<open>Sequencing: the first exception raised ends the evaluation.\<close>

definition and_then :: "py_error + 'a \<Rightarrow> ('a \<Rightarrow> py_error + 'b) \<Rightarrow> py_error + 'b" where
  "and_then m f = (case m of Inl e \<Rightarrow> Inl e | Inr v \<Rightarrow> f v)"

text \<open>\<^verbatim>\<open>bool(v)\<close>, as \<^verbatim>\<open>if v\<close> and \<^verbatim>\<open>x if v else y\<close> test it.\<close>

fun py_truthy :: "json \<Rightarrow> bool" where
  "py_truthy JNull = False"
| "py_truthy (JBool b) = b"
| "py_truthy (JInt n) = (n \<noteq> 0)"
| "py_truthy (JStr s) = (s \<noteq> [])"
| "py_truthy (JArr xs) = (xs \<noteq> [])"
| "py_truthy (JObj kvs) = (kvs \<noteq> [])"

text \<open>
  \<^verbatim>\<open>v[k]\<close> with a string key: a dictionary returns the value or raises
  \<^verbatim>\<open>KeyError(k)\<close>; every other value raises \<^verbatim>\<open>TypeError\<close> (a list or a string wants an
  integer index, \<^verbatim>\<open>None\<close>, a boolean and an integer are not subscriptable).
\<close>

fun subscript :: "json \<Rightarrow> string \<Rightarrow> py_error + json" where
  "subscript (JObj kvs) k =
     (case map_of kvs k of None \<Rightarrow> Inl (KeyError (JStr k)) | Some v \<Rightarrow> Inr v)"
| "subscript _ k = Inl TypeError"

text \<open>\<^verbatim>\<open>v[k1][k2]\<close>.\<close>

definition subscript2 :: "json \<Rightarrow> string \<Rightarrow> string \<Rightarrow> py_error + json" where
  "subscript2 v k1 k2 = and_then (subscript v k1) (\<lambda>x. subscript x k2)"

text \<open>
  \<^verbatim>\<open>v[0]\<close>: the first element of a list, the first character of a string, the value
  under the integer key \<^verbatim>\<open>0\<close> of a dictionary (a key that a parsed JSON object never
  has).
\<close>

fun subscript0 :: "json \<Rightarrow> py_error + json" where
  "subscript0 (JArr []) = Inl IndexError"
| "subscript0 (JArr (x # xs)) = Inr x"
| "subscript0 (JStr []) = Inl IndexError"
| "subscript0 (JStr (c # cs)) = Inr (JStr [c])"
| "subscript0 (JObj kvs) = Inl (KeyError (JInt 0))"
| "subscript0 _ = Inl TypeError"

text \<open>\<^verbatim>\<open>sep.join(parts)\<close> on a list of strings.\<close>

fun join_strings :: "string \<Rightarrow> string list \<Rightarrow> string" where
  "join_strings sep [] = []"
| "join_strings sep [s] = s"
| "join_strings sep (s # t # ts) = s @ sep @ join_strings sep (t # ts)"

fun the_str :: "json \<Rightarrow> string option" where
  "the_str (JStr s) = Some s"
| "the_str _ = None"

fun all_strs :: "json list \<Rightarrow> string list option" where
  "all_strs [] = Some []"
| "all_strs (x # xs) =
     (case the_str x of None \<Rightarrow> None
      | Some s \<Rightarrow> (case all_strs xs of None \<Rightarrow> None | Some ss \<Rightarrow> Some (s # ss)))"

text \<open>
  \<^verbatim>\<open>sep.join(v)\<close>: \<^verbatim>\<open>v\<close> is iterated; a list must hold strings only
  (\<^verbatim>\<open>TypeError\<close> otherwise), a string yields its characters, a dictionary its keys;
  \<^verbatim>\<open>None\<close>, a boolean and an integer are not iterable.
\<close>

fun py_join :: "string \<Rightarrow> json \<Rightarrow> py_error + json" where
  "py_join sep (JArr xs) =
     (case all_strs xs of None \<Rightarrow> Inl TypeError | Some ss \<Rightarrow> Inr (JStr (join_strings sep ss)))"
| "py_join sep (JStr s) = Inr (JStr (join_strings sep (map (\<lambda>c. [c]) s)))"
| "py_join sep (JObj kvs) = Inr (JStr (join_strings sep (map fst kvs)))"
| "py_join sep _ = Inl TypeError"

section \<open>The flattener: \<^verbatim>\<open>json_to_dataframe\<close>\<close>

text \<open>
  \<^verbatim>\<open>entity["transliteratedOtherNames"][0][k] if entity["transliteratedOtherNames"] else None\<close>
  (lines 60 to 62).
\<close>

definition first_transliterated :: "json \<Rightarrow> string \<Rightarrow> py_error + json" where
  "first_transliterated entity k =
     and_then (subscript entity ''transliteratedOtherNames'') (\<lambda>t.
       if py_truthy t
       then and_then (subscript entity ''transliteratedOtherNames'') (\<lambda>t'.
              and_then (subscript0 t') (\<lambda>x. subscript x k))
       else Inr JNull)"

text \<open>\<^verbatim>\<open>", ".join(v[k1][k2])\<close> (lines 63 and 69).\<close>

definition joined_lines :: "json \<Rightarrow> string \<Rightarrow> string \<Rightarrow> py_error + json" where
  "joined_lines v k1 k2 = and_then (subscript2 v k1 k2) (py_join '', '')"

text \<open>\<^verbatim>\<open>", ".join(attributes[k]) if attributes[k] else None\<close> (lines 86 and 89).\<close>

definition joined_codes :: "json \<Rightarrow> string \<Rightarrow> py_error + json" where
  "joined_codes attributes k =
     and_then (subscript attributes k) (\<lambda>c.
       if py_truthy c then and_then (subscript attributes k) (py_join '', '')
       else Inr JNull)"

text \<open>
  The entries of the dictionary display \<^verbatim>\<open>flat_data\<close> (lines 55 to 101), in the
  order in which Python evaluates them: each entry pairs the column name with the
  evaluation of its expression.
\<close>

definition flat_data_items ::
  "json \<Rightarrow> json \<Rightarrow> json \<Rightarrow> (string \<times> (py_error + json)) list" where
  "flat_data_items attributes entity registration =
   [ (''LEI'', subscript attributes ''lei''),
     (''Legal Name'', subscript2 entity ''legalName'' ''name''),
     (''Legal Name Language'', subscript2 entity ''legalName'' ''language''),
     (''Transliterated Legal Name'', first_transliterated entity ''name''),
     (''Transliterated Legal Name Language'', first_transliterated entity ''language''),
     (''Transliterated Legal Name Type'', first_transliterated entity ''type''),
     (''Legal Address'', joined_lines entity ''legalAddress'' ''addressLines''),
     (''Legal Address Language'', subscript2 entity ''legalAddress'' ''language''),
     (''Legal Address City'', subscript2 entity ''legalAddress'' ''city''),
     (''Legal Address Region'', subscript2 entity ''legalAddress'' ''region''),
     (''Legal Address Country'', subscript2 entity ''legalAddress'' ''country''),
     (''Legal Address Postal Code'', subscript2 entity ''legalAddress'' ''postalCode''),
     (''Headquarters Address'', joined_lines entity ''headquartersAddress'' ''addressLines''),
     (''Headquarters Address Language'', subscript2 entity ''headquartersAddress'' ''language''),
     (''Headquarters Address City'', subscript2 entity ''headquartersAddress'' ''city''),
     (''Headquarters Address Region'', subscript2 entity ''headquartersAddress'' ''region''),
     (''Headquarters Address Country'', subscript2 entity ''headquartersAddress'' ''country''),
     (''Headquarters Address Postal Code'',
        subscript2 entity ''headquartersAddress'' ''postalCode''),
     (''Jurisdiction'', subscript entity ''jurisdiction''),
     (''Category'', subscript entity ''category''),
     (''Legal Form ID'', subscript2 entity ''legalForm'' ''id''),
     (''Registered At ID'', subscript2 entity ''registeredAt'' ''id''),
     (''Registered As'', subscript entity ''registeredAs''),
     (''Entity Status'', subscript entity ''status''),
     (''Creation Date'', subscript entity ''creationDate''),
     (''Expiration Date'', subscript2 entity ''expiration'' ''date''),
     (''Expiration Reason'', subscript2 entity ''expiration'' ''reason''),
     (''Associated Entity LEI'', subscript2 entity ''associatedEntity'' ''lei''),
     (''Associated Entity Name'', subscript2 entity ''associatedEntity'' ''name''),
     (''BIC Codes'', joined_codes attributes ''bic''),
     (''MIC'', subscript attributes ''mic''),
     (''OCID'', subscript attributes ''ocid''),
     (''SP Global IDs'', joined_codes attributes ''spglobal''),
     (''Conformity Flag'', subscript attributes ''conformityFlag''),
     (''Initial Registration Date'', subscript registration ''initialRegistrationDate''),
     (''Last Update Date'', subscript registration ''lastUpdateDate''),
     (''Next Renewal Date'', subscript registration ''nextRenewalDate''),
     (''Registration Status'', subscript registration ''status''),
     (''Managing LOU'', subscript registration ''managingLou''),
     (''Corroboration Level'', subscript registration ''corroborationLevel''),
     (''Validated At ID'', subscript2 registration ''validatedAt'' ''id''),
     (''Validated As'', subscript registration ''validatedAs'') ]"

text \<open>
  Building the dictionary: the entries are evaluated from first to last, and the first
  exception leaves the function.
\<close>

fun build_dict :: "(string \<times> (py_error + json)) list \<Rightarrow> py_error + (string \<times> json) list" where
  "build_dict [] = Inr []"
| "build_dict ((k, c) # rest) =
     (case c of
        Inl e \<Rightarrow> Inl e
      | Inr v \<Rightarrow> (case build_dict rest of Inl e \<Rightarrow> Inl e | Inr row \<Rightarrow> Inr ((k, v) # row)))"

text \<open>
  A data frame is the list of its rows; a row is its index label (absent before
  \<^verbatim>\<open>set_index\<close>) and its cells by column name, in column order.  \<^verbatim>\<open>None\<close> in a cell
  is \<open>JNull\<close>.
\<close>

record flat_row =
  label :: "json option"
  cells :: "(string \<times> json) list"

type_synonym dataframe = "flat_row list"

text \<open>\<^verbatim>\<open>pd.DataFrame([d])\<close>: one row, no index label yet.\<close>

definition DataFrame1 :: "(string \<times> json) list \<Rightarrow> dataframe" where
  "DataFrame1 d = [\<lparr>label = None, cells = d\<rparr>]"

text \<open>
  \<^verbatim>\<open>df.set_index(col)\<close>: the column becomes the index and leaves the cells;
  \<^verbatim>\<open>KeyError(col)\<close> when there is no such column.
\<close>

fun set_index :: "string \<Rightarrow> dataframe \<Rightarrow> py_error + dataframe" where
  "set_index col [] = Inr []"
| "set_index col (r # rs) =
     (case map_of (cells r) col of
        None \<Rightarrow> Inl (KeyError (JStr col))
      | Some v \<Rightarrow>
          (case set_index col rs of
             Inl e \<Rightarrow> Inl e
           | Inr rs' \<Rightarrow>
               Inr (\<lparr>label = Some v, cells = filter (\<lambda>kv. fst kv \<noteq> col) (cells r)\<rparr> # rs')))"

definition json_to_dataframe :: "json \<Rightarrow> py_error + dataframe" where
  "json_to_dataframe data =
     and_then (subscript2 data ''data'' ''attributes'') (\<lambda>attributes.
     and_then (subscript attributes ''entity'') (\<lambda>entity.
     and_then (subscript attributes ''registration'') (\<lambda>registration.
     and_then (build_dict (flat_data_items attributes entity registration)) (\<lambda>flat_data.
       set_index ''Legal Name'' (DataFrame1 flat_data)))))"

section \<open>The HTTP client\<close>

text \<open>
  The \<^verbatim>\<open>requests\<close> library is outside the program.  A request is the URL passed to
  \<^verbatim>\<open>requests.get\<close> (whatever value the program passes) and the headers.  The network
  answers a request either by raising a \<^verbatim>\<open>RequestException\<close> (\<open>Inl\<close> of its text) or
  with a response: the status code, the body as text, and what \<^verbatim>\<open>response.json()\<close>
  gives, the parsed body or the text of a \<^verbatim>\<open>JSONDecodeError\<close>.  In \<^verbatim>\<open>requests\<close> that
  error is a \<^verbatim>\<open>RequestException\<close> (since version 2.27), so both \<^verbatim>\<open>except\<close> clauses of
  the program catch it; the theorems about the claims do not rest on a body that fails to
  parse.  Within one run the network answers equal requests equally.
\<close>

datatype request = Get json "(string \<times> string) list"

record response =
  status_code :: int
  text_of :: string
  body_json :: "string + json"

type_synonym network = "request \<Rightarrow> string + response"

datatype request_exception =
    Transport string
  | HTTPError int
  | JSONDecodeError string

text \<open>
  The values a Python \<^verbatim>\<open>set\<close> of identifiers can hold: \<^verbatim>\<open>None\<close>, booleans, integers
  and strings are hashable, lists and dictionaries are not.
\<close>

datatype py_scalar = PNone | PBool bool | PInt int | PStr string

fun hashable :: "json \<Rightarrow> py_scalar option" where
  "hashable JNull = Some PNone"
| "hashable (JBool b) = Some (PBool b)"
| "hashable (JInt n) = Some (PInt n)"
| "hashable (JStr s) = Some (PStr s)"
| "hashable (JArr xs) = None"
| "hashable (JObj kvs) = None"

text \<open>\<^verbatim>\<open>x == y\<close> on these values: \<^verbatim>\<open>True == 1\<close> and \<^verbatim>\<open>False == 0\<close> hold in Python.\<close>

fun py_eq :: "py_scalar \<Rightarrow> py_scalar \<Rightarrow> bool" where
  "py_eq PNone PNone = True"
| "py_eq (PStr a) (PStr b) = (a = b)"
| "py_eq (PInt a) (PInt b) = (a = b)"
| "py_eq (PBool a) (PBool b) = (a = b)"
| "py_eq (PInt a) (PBool b) = (a = (if b then 1 else 0))"
| "py_eq (PBool a) (PInt b) = (b = (if a then 1 else 0))"
| "py_eq _ _ = False"

text \<open>\<^verbatim>\<open>str(n)\<close> for an integer, and \<^verbatim>\<open>str(v)\<close> as an f-string formats a scalar.\<close>

fun nat_digits :: "nat \<Rightarrow> string" where
  "nat_digits n =
     (if n < 10 then [''0123456789'' ! n]
      else nat_digits (n div 10) @ [''0123456789'' ! (n mod 10)])"

definition str_int :: "int \<Rightarrow> string" where
  "str_int i = (if i < 0 then ''-'' @ nat_digits (nat (- i)) else nat_digits (nat i))"

fun py_str :: "py_scalar \<Rightarrow> string" where
  "py_str PNone = ''None''"
| "py_str (PBool b) = (if b then ''True'' else ''False'')"
| "py_str (PInt n) = str_int n"
| "py_str (PStr s) = s"

section \<open>The fetcher: \<^verbatim>\<open>get_lei_information\<close>\<close>

definition lei_request :: "py_scalar \<Rightarrow> request" where
  "lei_request lei =
     Get (JStr (''https://api.gleif.org/api/v1/lei-records/'' @ py_str lei))
         [(''Accept'', ''application/vnd.api+json'')]"

text \<open>
  The function returns a dictionary in every case: the parsed body, or a dictionary with
  the keys \<^verbatim>\<open>error\<close> and \<^verbatim>\<open>details\<close>.  The second component is the log of the requests
  sent so far.
\<close>

definition get_lei_information ::
  "network \<Rightarrow> py_scalar \<Rightarrow> request list \<Rightarrow> json \<times> request list" where
  "get_lei_information net lei log =
     (case net (lei_request lei) of
        Inl e \<Rightarrow>
          (JObj [(''error'', JStr ''An error occurred during the request.''),
                 (''details'', JStr e)],
           log @ [lei_request lei])
      | Inr resp \<Rightarrow>
          (if status_code resp = 200
           then (case body_json resp of
                   Inr v \<Rightarrow> v
                 | Inl e \<Rightarrow>
                     JObj [(''error'', JStr ''An error occurred during the request.''),
                           (''details'', JStr e)])
           else JObj [(''error'',
                       JStr (''Error retrieving data (status code ''
                             @ str_int (status_code resp) @ '').'')),
                      (''details'', JStr (text_of resp))],
           log @ [lei_request lei]))"

section \<open>The relationship resolver\<close>

text \<open>\<^verbatim>\<open>d.get(k, default)\<close>: only a dictionary has the method.\<close>

fun py_get :: "json \<Rightarrow> string \<Rightarrow> json \<Rightarrow> py_error + json" where
  "py_get (JObj kvs) k dflt = (case map_of kvs k of None \<Rightarrow> Inr dflt | Some v \<Rightarrow> Inr v)"
| "py_get _ k dflt = Inl AttributeError"

text \<open>\<^verbatim>\<open>d.items()\<close>.\<close>

fun py_items :: "json \<Rightarrow> py_error + (string \<times> json) list" where
  "py_items (JObj kvs) = Inr kvs"
| "py_items _ = Inl AttributeError"

text \<open>
  One entry of \<^verbatim>\<open>results\<close>: the relationship name and the link, with either the
  fetched payload (key \<^verbatim>\<open>Data\<close>) or the exception caught (key \<^verbatim>\<open>Error\<close>, which holds
  its text).
\<close>

datatype rel_entry =
    Fetched string json json
  | Failed string json request_exception

text \<open>
  Lines 123 to 142: the request, \<^verbatim>\<open>raise_for_status\<close> (an \<^verbatim>\<open>HTTPError\<close> for a status
  from 400 to 599), the parsing of the body, and the \<^verbatim>\<open>except\<close> clause.
\<close>

definition fetch_one :: "network \<Rightarrow> string \<Rightarrow> json \<Rightarrow> rel_entry" where
  "fetch_one net rel_name related_link =
     (case net (Get related_link []) of
        Inl e \<Rightarrow> Failed rel_name related_link (Transport e)
      | Inr resp \<Rightarrow>
          (if 400 \<le> status_code resp \<and> status_code resp < 600
           then Failed rel_name related_link (HTTPError (status_code resp))
           else (case body_json resp of
                   Inl e \<Rightarrow> Failed rel_name related_link (JSONDecodeError e)
                 | Inr fetched_data \<Rightarrow> Fetched rel_name related_link fetched_data)))"

text \<open>The loop of lines 119 to 142, with \<^verbatim>\<open>results\<close> and the request log as accumulators.\<close>

fun fetch_loop ::
  "network \<Rightarrow> (string \<times> json) list \<Rightarrow> rel_entry list \<Rightarrow> request list
   \<Rightarrow> (py_error + rel_entry list) \<times> request list" where
  "fetch_loop net [] results log = (Inr results, log)"
| "fetch_loop net ((rel_name, rel_data) # rest) results log =
     (case py_get rel_data ''links'' (JObj []) of
        Inl e \<Rightarrow> (Inl e, log)
      | Inr links \<Rightarrow>
          (case py_get links ''related'' JNull of
             Inl e \<Rightarrow> (Inl e, log)
           | Inr related_link \<Rightarrow>
               (if py_truthy related_link
                then fetch_loop net rest (results @ [fetch_one net rel_name related_link])
                       (log @ [Get related_link []])
                else fetch_loop net rest results log)))"

text \<open>
  \<^verbatim>\<open>pd.DataFrame(results)\<close> is kept as the list of its rows: it is empty exactly when
  \<^verbatim>\<open>results\<close> is.
\<close>

definition fetch_relationship_data ::
  "network \<Rightarrow> json \<Rightarrow> request list \<Rightarrow> (py_error + rel_entry list) \<times> request list" where
  "fetch_relationship_data net base_data log =
     (case and_then (subscript base_data ''data'') (\<lambda>d.
             and_then (py_get d ''relationships'' (JObj [])) py_items) of
        Inl e \<Rightarrow> (Inl e, log)
      | Inr relationships \<Rightarrow> fetch_loop net relationships [] log)"

text \<open>
  A cell of the column \<^verbatim>\<open>Data\<close>: the payload of a fetched relationship, or the float
  \<^verbatim>\<open>NaN\<close> with which pandas fills the rows that have no such key.
\<close>

datatype cell = Cell json | NaN

fun is_fetched :: "rel_entry \<Rightarrow> bool" where
  "is_fetched (Fetched n l d) = True"
| "is_fetched (Failed n l e) = False"

fun data_cell :: "rel_entry \<Rightarrow> cell" where
  "data_cell (Fetched n l d) = Cell d"
| "data_cell (Failed n l e) = NaN"

text \<open>
  \<^verbatim>\<open>relationship_df["Data"]\<close> (line 203): the column exists when some row has the key,
  \<^verbatim>\<open>KeyError('Data')\<close> otherwise.
\<close>

definition data_column :: "rel_entry list \<Rightarrow> py_error + cell list" where
  "data_column relationship_df =
     (if list_ex is_fetched relationship_df then Inr (map data_cell relationship_df)
      else Inl (KeyError (JStr ''Data'')))"

text \<open>\<^verbatim>\<open>x.get("attributes", {}).get("lei")\<close> (lines 164 and 169).\<close>

definition entry_lei :: "json \<Rightarrow> py_error + json" where
  "entry_lei x = and_then (py_get x ''attributes'' (JObj [])) (\<lambda>a. py_get a ''lei'' JNull)"

text \<open>
  \<^verbatim>\<open>if lei and lei != input_lei: related_leis.append(lei)\<close> (lines 165 and 170); the
  input identifier is a string, which only an equal string equals.
\<close>

definition keep_lei :: "json \<Rightarrow> string \<Rightarrow> json list \<Rightarrow> json list" where
  "keep_lei lei input_lei related_leis =
     (if py_truthy lei \<and> lei \<noteq> JStr input_lei then related_leis @ [lei] else related_leis)"

text \<open>The inner loop of lines 163 to 166.\<close>

fun entries_loop :: "json list \<Rightarrow> string \<Rightarrow> json list \<Rightarrow> py_error + json list" where
  "entries_loop [] input_lei related_leis = Inr related_leis"
| "entries_loop (entry # rest) input_lei related_leis =
     (case entry_lei entry of
        Inl e \<Rightarrow> Inl e
      | Inr lei \<Rightarrow> entries_loop rest input_lei (keep_lei lei input_lei related_leis))"

text \<open>
  The outer loop of lines 158 to 171.  \<^verbatim>\<open>relationship.get\<close> on the float \<^verbatim>\<open>NaN\<close>
  raises \<^verbatim>\<open>AttributeError\<close>, as on every value that is not a dictionary.
\<close>

fun cells_loop :: "cell list \<Rightarrow> string \<Rightarrow> json list \<Rightarrow> py_error + json list" where
  "cells_loop [] input_lei related_leis = Inr related_leis"
| "cells_loop (NaN # rest) input_lei related_leis = Inl AttributeError"
| "cells_loop (Cell relationship # rest) input_lei related_leis =
     (case py_get relationship ''data'' JNull of
        Inl e \<Rightarrow> Inl e
      | Inr data_field \<Rightarrow>
          (case data_field of
             JArr entries \<Rightarrow>
               (case entries_loop entries input_lei related_leis of
                  Inl e \<Rightarrow> Inl e
                | Inr related_leis' \<Rightarrow> cells_loop rest input_lei related_leis')
           | JObj kvs \<Rightarrow>
               (case entry_lei data_field of
                  Inl e \<Rightarrow> Inl e
                | Inr lei \<Rightarrow> cells_loop rest input_lei (keep_lei lei input_lei related_leis))
           | _ \<Rightarrow> cells_loop rest input_lei related_leis))"

text \<open>
  \<^verbatim>\<open>set(related_leis)\<close> (line 173): building the set hashes every element
  (\<^verbatim>\<open>TypeError\<close> on a list or a dictionary) and keeps the first of the elements that
  are equal.  The set is kept as the list of its elements in the order of their insertion.
\<close>

definition set_add :: "py_scalar list \<Rightarrow> py_scalar \<Rightarrow> py_scalar list" where
  "set_add s h = (if list_ex (\<lambda>y. py_eq y h) s then s else s @ [h])"

fun build_set :: "json list \<Rightarrow> py_scalar list \<Rightarrow> py_error + py_scalar list" where
  "build_set [] s = Inr s"
| "build_set (x # xs) s =
     (case hashable x of None \<Rightarrow> Inl TypeError | Some h \<Rightarrow> build_set xs (set_add s h))"

text \<open>
  \<^verbatim>\<open>list(...)\<close> of the set (line 173) lists the elements in the order in which the set
  iterates, which depends on the hashes of the elements and so, for strings, on the hash
  seed of the interpreter.  The order is a parameter of the model: a function from the
  elements as inserted to the elements as listed.  All that is known of it is that it
  rearranges them.
\<close>

type_synonym set_order = "py_scalar list \<Rightarrow> py_scalar list"

definition rearranges :: "set_order \<Rightarrow> bool" where
  "rearranges order = (\<forall>s. distinct s \<longrightarrow> distinct (order s) \<and> set (order s) = set s)"

definition extract_related_leis ::
  "set_order \<Rightarrow> cell list \<Rightarrow> string \<Rightarrow> py_error + py_scalar list" where
  "extract_related_leis order relationship_data input_lei =
     (case cells_loop relationship_data input_lei [] of
        Inl e \<Rightarrow> Inl e
      | Inr related_leis \<Rightarrow>
          (case build_set related_leis [] of Inl e \<Rightarrow> Inl e | Inr s \<Rightarrow> Inr (order s)))"

text \<open>What the two loops append: a value that is true and differs from the input identifier.\<close>

definition kept :: "string \<Rightarrow> json \<Rightarrow> bool" where
  "kept input_lei x = (py_truthy x \<and> x \<noteq> JStr input_lei)"

section \<open>The script\<close>

text \<open>
  What one run of the script shows and does: the Streamlit elements shown, in order, the
  requests sent, in order, and the exception that ended the run, if one did.  An element
  built from an f-string keeps the value that the f-string formats.  The icons in the
  titles and messages are left out.

  Showing a frame, \<^verbatim>\<open>st.dataframe(df.T.style.format(na_rep="N/A"), ...)\<close> at lines 195
  and 218, is the work of pandas and Streamlit, which can refuse the frame: with a
  \<^verbatim>\<open>TypeError\<close> when a label is not hashable, with a \<^verbatim>\<open>ValueError\<close> when two rows
  have the same label.  What they do with a frame is a parameter of the model: the
  exception raised on it, if any.
\<close>

type_synonym display = "dataframe \<Rightarrow> py_error option"

datatype event =
    St_subheader string
  | St_error json
  | St_write json
  | St_dataframe dataframe
  | St_info string

record run =
  shown :: "event list"
  sent :: "request list"
  raised :: "py_error option"

text \<open>\<^verbatim>\<open>"error" in data\<close> (lines 188 and 209): a key of a dictionary, an element of a
  list, a substring of a string; the other values are not iterable.\<close>

fun is_prefix :: "string \<Rightarrow> string \<Rightarrow> bool" where
  "is_prefix [] ys = True"
| "is_prefix (x # xs) [] = False"
| "is_prefix (x # xs) (y # ys) = (x = y \<and> is_prefix xs ys)"

fun is_substring :: "string \<Rightarrow> string \<Rightarrow> bool" where
  "is_substring p [] = (p = [])"
| "is_substring p (c # cs) = (is_prefix p (c # cs) \<or> is_substring p cs)"

fun py_in :: "string \<Rightarrow> json \<Rightarrow> py_error + bool" where
  "py_in k (JObj kvs) = Inr (map_of kvs k \<noteq> None)"
| "py_in k (JArr xs) = Inr (List.member xs (JStr k))"
| "py_in k (JStr s) = Inr (is_substring k s)"
| "py_in k _ = Inl TypeError"

text \<open>Lines 189 and 190, and again 210 and 211: the two messages of a failed fetch.\<close>

definition show_error :: "json \<Rightarrow> run \<Rightarrow> run" where
  "show_error data st =
     (case subscript data ''error'' of
        Inl e \<Rightarrow> st\<lparr>raised := Some e\<rparr>
      | Inr msg \<Rightarrow>
          (case subscript data ''details'' of
             Inl e \<Rightarrow> st\<lparr>shown := shown st @ [St_error msg], raised := Some e\<rparr>
           | Inr details \<Rightarrow> st\<lparr>shown := shown st @ [St_error msg, St_write details]\<rparr>))"

text \<open>
  The loop of lines 207 to 215 over the related identifiers; \<^verbatim>\<open>pd.concat\<close> appends the
  rows of the new frame to \<^verbatim>\<open>relationship_df_display\<close>.
\<close>

fun related_loop :: "network \<Rightarrow> py_scalar list \<Rightarrow> dataframe \<Rightarrow> run \<Rightarrow> dataframe \<times> run" where
  "related_loop net [] df_display st = (df_display, st)"
| "related_loop net (related_lei # rest) df_display st =
     (case get_lei_information net related_lei (sent st) of
        (data, log) \<Rightarrow>
          (case py_in ''error'' data of
             Inl e \<Rightarrow> (df_display, st\<lparr>sent := log, raised := Some e\<rparr>)
           | Inr True \<Rightarrow>
               (case raised (show_error data (st\<lparr>sent := log\<rparr>)) of
                  Some e \<Rightarrow> (df_display, show_error data (st\<lparr>sent := log\<rparr>))
                | None \<Rightarrow>
                    related_loop net rest df_display (show_error data (st\<lparr>sent := log\<rparr>)))
           | Inr False \<Rightarrow>
               (case json_to_dataframe data of
                  Inl e \<Rightarrow> (df_display, st\<lparr>sent := log, raised := Some e\<rparr>)
                | Inr df \<Rightarrow> related_loop net rest (df_display @ df) (st\<lparr>sent := log\<rparr>))))"

text \<open>Lines 198 to 222: the relationships of the company.\<close>

definition relationships_section ::
  "network \<Rightarrow> set_order \<Rightarrow> display \<Rightarrow> json \<Rightarrow> string \<Rightarrow> run \<Rightarrow> run" where
  "relationships_section net order st_dataframe data input_lei st0 =
     (let st = st0\<lparr>shown := shown st0 @ [St_subheader ''Company Relationships'']\<rparr> in
      case fetch_relationship_data net data (sent st) of
        (Inl e, log) \<Rightarrow> st\<lparr>sent := log, raised := Some e\<rparr>
      | (Inr relationship_df, log) \<Rightarrow>
          (if relationship_df \<noteq> []
           then (case data_column relationship_df of
                   Inl e \<Rightarrow> st\<lparr>sent := log, raised := Some e\<rparr>
                 | Inr relationship_data \<Rightarrow>
                     (case extract_related_leis order relationship_data input_lei of
                        Inl e \<Rightarrow> st\<lparr>sent := log, raised := Some e\<rparr>
                      | Inr related_leis \<Rightarrow>
                          (case related_loop net related_leis [] (st\<lparr>sent := log\<rparr>) of
                             (df_display, st') \<Rightarrow>
                               (if raised st' \<noteq> None then st'
                                else if df_display \<noteq> []
                                then (case st_dataframe df_display of
                                        Some e \<Rightarrow> st'\<lparr>raised := Some e\<rparr>
                                      | None \<Rightarrow>
                                          st'\<lparr>shown := shown st' @ [St_dataframe df_display]\<rparr>)
                                else st'\<lparr>shown := shown st'
                                             @ [St_info ''No relationships found.'']\<rparr>))))
           else st\<lparr>sent := log, shown := shown st @ [St_info ''No relationships found.'']\<rparr>))"

text \<open>
  Lines 184 to 222: the body run when the button is pressed, with the identifier typed
  into the text field.
\<close>

definition main :: "network \<Rightarrow> set_order \<Rightarrow> display \<Rightarrow> string \<Rightarrow> run" where
  "main net order st_dataframe input_lei =
     (case get_lei_information net (PStr input_lei) [] of
        (data, log) \<Rightarrow>
          (case py_in ''error'' data of
             Inl e \<Rightarrow> \<lparr>shown = [], sent = log, raised = Some e\<rparr>
           | Inr True \<Rightarrow> show_error data \<lparr>shown = [], sent = log, raised = None\<rparr>
           | Inr False \<Rightarrow>
               (case json_to_dataframe data of
                  Inl e \<Rightarrow> \<lparr>shown = [St_subheader ''Company Information''], sent = log,
                             raised = Some e\<rparr>
                | Inr company_df \<Rightarrow>
                    (case st_dataframe company_df of
                       Some e \<Rightarrow> \<lparr>shown = [St_subheader ''Company Information''], sent = log,
                                  raised = Some e\<rparr>
                     | None \<Rightarrow>
                         relationships_section net order st_dataframe data input_lei
                           \<lparr>shown = [St_subheader ''Company Information'',
                                     St_dataframe company_df],
                            sent = log, raised = None\<rparr>))))"

section \<open>Paths, cells and sample data\<close>

text \<open>\<^verbatim>\<open>v[k1][k2]...[kn]\<close>: following a path of keys from a value.\<close>

fun resolve :: "json \<Rightarrow> string list \<Rightarrow> py_error + json" where
  "resolve v [] = Inr v"
| "resolve v (k # ks) = (case subscript v k of Inl e \<Rightarrow> Inl e | Inr x \<Rightarrow> resolve x ks)"

text \<open>
  The paths that \<^verbatim>\<open>json_to_dataframe\<close> reads without a guard, from the root of the
  record, in the order of lines 50 to 100.  The three paths below the first transliterated
  name are not among them: they are read only when the list is not empty.
\<close>

definition entity_paths :: "string list list" where
  "entity_paths =
   [ [''legalName'', ''name''], [''legalName'', ''language''],
     [''transliteratedOtherNames''],
     [''legalAddress'', ''addressLines''], [''legalAddress'', ''language''],
     [''legalAddress'', ''city''], [''legalAddress'', ''region''],
     [''legalAddress'', ''country''], [''legalAddress'', ''postalCode''],
     [''headquartersAddress'', ''addressLines''], [''headquartersAddress'', ''language''],
     [''headquartersAddress'', ''city''], [''headquartersAddress'', ''region''],
     [''headquartersAddress'', ''country''], [''headquartersAddress'', ''postalCode''],
     [''jurisdiction''], [''category''], [''legalForm'', ''id''], [''registeredAt'', ''id''],
     [''registeredAs''], [''status''], [''creationDate''],
     [''expiration'', ''date''], [''expiration'', ''reason''],
     [''associatedEntity'', ''lei''], [''associatedEntity'', ''name''] ]"

definition attribute_paths :: "string list list" where
  "attribute_paths =
   [ [''lei''], [''bic''], [''mic''], [''ocid''], [''spglobal''], [''conformityFlag''] ]"

definition registration_paths :: "string list list" where
  "registration_paths =
   [ [''initialRegistrationDate''], [''lastUpdateDate''], [''nextRenewalDate''], [''status''],
     [''managingLou''], [''corroborationLevel''], [''validatedAt'', ''id''], [''validatedAs''] ]"

definition required_paths :: "string list list" where
  "required_paths =
     [[''data'', ''attributes''],
      [''data'', ''attributes'', ''entity''],
      [''data'', ''attributes'', ''registration'']]
     @ map (\<lambda>p. [''data'', ''attributes''] @ p) attribute_paths
     @ map (\<lambda>p. [''data'', ''attributes'', ''entity''] @ p) entity_paths
     @ map (\<lambda>p. [''data'', ''attributes'', ''registration''] @ p) registration_paths"

text \<open>
  The keys that \<^verbatim>\<open>json_to_dataframe\<close> subscripts with, and the exceptions it can raise
  with them: a \<^verbatim>\<open>TypeError\<close>, which carries no key, or a \<^verbatim>\<open>KeyError\<close> with one key
  (\<^verbatim>\<open>0\<close> when the transliterated names are a dictionary).
\<close>

definition schema_keys :: "string list" where
  "schema_keys =
   [ ''data'', ''attributes'', ''entity'', ''registration'', ''lei'', ''legalName'', ''name'',
     ''language'', ''transliteratedOtherNames'', ''type'', ''legalAddress'', ''addressLines'',
     ''city'', ''region'', ''country'', ''postalCode'', ''headquartersAddress'',
     ''jurisdiction'', ''category'', ''legalForm'', ''id'', ''registeredAt'', ''registeredAs'',
     ''status'', ''creationDate'', ''expiration'', ''date'', ''reason'', ''associatedEntity'',
     ''bic'', ''mic'', ''ocid'', ''spglobal'', ''conformityFlag'', ''initialRegistrationDate'',
     ''lastUpdateDate'', ''nextRenewalDate'', ''managingLou'', ''corroborationLevel'',
     ''validatedAt'', ''validatedAs'' ]"

definition single_key_error :: "py_error \<Rightarrow> bool" where
  "single_key_error e =
     (e = TypeError \<or> e = KeyError (JInt 0) \<or> list_ex (\<lambda>k. e = KeyError (JStr k)) schema_keys)"

text \<open>The cell of a one-row frame under a column name.\<close>

fun cell_of :: "dataframe \<Rightarrow> string \<Rightarrow> json option" where
  "cell_of [r] c = map_of (cells r) c"
| "cell_of _ c = None"

text \<open>
  A record as the registry serves it, with the list of transliterated names, the lines of
  the legal address and the two code lists left open.
\<close>

definition sample_entity :: "json \<Rightarrow> json \<Rightarrow> json" where
  "sample_entity names lines =
     JObj [ (''legalName'', JObj [(''name'', JStr ''Example Effekten GmbH''),
                                  (''language'', JStr ''de'')]),
            (''otherNames'', JArr []),
            (''transliteratedOtherNames'', names),
            (''legalAddress'',
               JObj [(''language'', JStr ''de''), (''addressLines'', lines),
                     (''city'', JStr ''Frankfurt am Main''), (''region'', JStr ''DE-HE''),
                     (''country'', JStr ''DE''), (''postalCode'', JStr ''60311'')]),
            (''headquartersAddress'',
               JObj [(''language'', JStr ''de''),
                     (''addressLines'', JArr [JStr ''Neue Mainzer Str. 46'', JStr ''3. OG'']),
                     (''city'', JStr ''Frankfurt am Main''), (''region'', JStr ''DE-HE''),
                     (''country'', JStr ''DE''), (''postalCode'', JStr ''60311'')]),
            (''registeredAt'', JObj [(''id'', JStr ''RA000242''), (''other'', JNull)]),
            (''registeredAs'', JStr ''HRB 32283''),
            (''jurisdiction'', JStr ''DE''),
            (''category'', JStr ''GENERAL''),
            (''legalForm'', JObj [(''id'', JStr ''2HBR''), (''other'', JNull)]),
            (''associatedEntity'', JObj [(''lei'', JNull), (''name'', JNull)]),
            (''status'', JStr ''ACTIVE''),
            (''expiration'', JObj [(''date'', JNull), (''reason'', JNull)]),
            (''creationDate'', JStr ''1977-03-03T00:00:00Z'') ]"

definition sample_registration :: json where
  "sample_registration =
     JObj [ (''initialRegistrationDate'', JStr ''2012-11-29T16:33:00Z''),
            (''lastUpdateDate'', JStr ''2024-04-15T08:01:00Z''),
            (''status'', JStr ''ISSUED''),
            (''nextRenewalDate'', JStr ''2025-05-06T07:42:00Z''),
            (''managingLou'', JStr ''5299000J2N45DDNE4Y28''),
            (''corroborationLevel'', JStr ''FULLY_CORROBORATED''),
            (''validatedAt'', JObj [(''id'', JStr ''RA000242''), (''other'', JNull)]),
            (''validatedAs'', JStr ''HRB 32283'') ]"

definition sample_relationships :: json where
  "sample_relationships =
     JObj [ (''managing-lou'',
               JObj [(''links'', JObj [(''related'', JStr ''https://registry.example/lou'')])]),
            (''direct-parent'',
               JObj [(''links'', JObj [(''related'', JStr ''https://registry.example/parent'')])]),
            (''field-modifications'',
               JObj [(''links'', JObj [(''self'', JStr ''https://registry.example/mods'')])]) ]"

definition sample_record :: "json \<Rightarrow> json \<Rightarrow> json \<Rightarrow> json \<Rightarrow> json" where
  "sample_record names lines bic spglobal =
     JObj [ (''meta'', JObj [(''goldenCopy'', JObj [(''publishDate'', JStr ''2024-05-01'')])]),
            (''data'',
               JObj [ (''type'', JStr ''lei-records''),
                      (''id'', JStr ''529900W18LQJJN6SJ336''),
                      (''attributes'',
                         JObj [ (''lei'', JStr ''529900W18LQJJN6SJ336''),
                                (''entity'', sample_entity names lines),
                                (''registration'', sample_registration),
                                (''bic'', bic),
                                (''mic'', JNull),
                                (''ocid'', JNull),
                                (''spglobal'', spglobal),
                                (''conformityFlag'', JStr ''CONFORMING'') ]),
                      (''relationships'', sample_relationships) ]) ]"


definition sample_names :: json where
  "sample_names =
     JArr [ JObj [(''name'', JStr ''Example Securities Ltd''), (''language'', JStr ''en''),
                  (''type'', JStr ''PREFERRED_ASCII_TRANSLITERATED_LEGAL_NAME'')],
            JObj [(''name'', JStr ''Example Valeurs SA''), (''language'', JStr ''fr''),
                  (''type'', JStr ''AUTO_ASCII_TRANSLITERATED_LEGAL_NAME'')] ]"

text \<open>
  An identifier in a payload, in the words of the interface: the payload fetched from a
  link has a field \<^verbatim>\<open>data\<close> that is one object or a list of objects, each with a field
  \<^verbatim>\<open>attributes.lei\<close>.
\<close>

definition has_lei :: "string \<Rightarrow> json \<Rightarrow> bool" where
  "has_lei s x = (resolve x [''attributes'', ''lei''] = Inr (JStr s))"

definition payload_mentions :: "string \<Rightarrow> json \<Rightarrow> bool" where
  "payload_mentions s payload =
     (case resolve payload [''data''] of
        Inr (JArr entries) \<Rightarrow> list_ex (has_lei s) entries
      | Inr (JObj kvs) \<Rightarrow> has_lei s (JObj kvs)
      | _ \<Rightarrow> False)"







text \<open>The same record with one key of one dictionary on a path removed.\<close>

fun remove_key :: "string list \<Rightarrow> json \<Rightarrow> json" where
  "remove_key [] v = v"
| "remove_key [k] (JObj kvs) = JObj (filter (\<lambda>kv. fst kv \<noteq> k) kvs)"
| "remove_key (k # k' # ks) (JObj kvs) =
     JObj (map (\<lambda>kv. if fst kv = k then (fst kv, remove_key (k' # ks) (snd kv)) else kv) kvs)"
| "remove_key ks v = v"


text \<open>An evaluation that succeeds or raises the given exception, and no other.\<close>

definition raises_only :: "py_error \<Rightarrow> py_error + 'a \<Rightarrow> bool" where
  "raises_only err c = (isl c \<longrightarrow> c = Inl err)"

text \<open>The same record with the value at the end of a path replaced.\<close>

fun set_key :: "string list \<Rightarrow> json \<Rightarrow> json \<Rightarrow> json" where
  "set_key [] new v = new"
| "set_key (k # ks) new (JObj kvs) =
     JObj (map (\<lambda>kv. if fst kv = k then (fst kv, set_key ks new (snd kv)) else kv) kvs)"
| "set_key (k # ks) new v = v"

text \<open>A network given by the table of its answers; it refuses every other request.\<close>

definition net_of :: "(request \<times> (string + response)) list \<Rightarrow> network" where
  "net_of answers req =
     (case map_of answers req of None \<Rightarrow> Inl ''Connection refused'' | Some a \<Rightarrow> a)"

definition ok_response :: "json \<Rightarrow> string + response" where
  "ok_response body = Inr \<lparr>status_code = 200, text_of = ''(body)'', body_json = Inr body\<rparr>"

definition status_response :: "int \<Rightarrow> string \<Rightarrow> string + response" where
  "status_response code body =
     Inr \<lparr>status_code = code, text_of = body,
          body_json = Inl ''Expecting value: line 1 column 1 (char 0)''\<rparr>"

text \<open>A display that accepts every frame.\<close>

definition shows_all :: display where
  "shows_all df = None"

definition one_lei :: "string \<Rightarrow> json" where
  "one_lei lei = JObj [(''type'', JStr ''lei-records''), (''id'', JStr lei),
                       (''attributes'', JObj [(''lei'', JStr lei)])]"

section \<open>Facts about the flattener\<close>

lemma and_then_Inr: "and_then m f = Inr y \<longleftrightarrow> (\<exists>v. m = Inr v \<and> f v = Inr y)"
  by (cases m) (simp_all add: and_then_def)

lemma and_then_Inl: "and_then m f = Inl e \<longleftrightarrow> m = Inl e \<or> (\<exists>v. m = Inr v \<and> f v = Inl e)"
  by (cases m) (simp_all add: and_then_def)

lemma build_dict_map_of:
  "build_dict items = Inr row \<Longrightarrow> map_of items k = Some c \<Longrightarrow> \<exists>v. c = Inr v \<and> map_of row k = Some v"
proof (induction items arbitrary: row)
  case Nil
  then show ?case by simp
next
  case (Cons item items)
  obtain k' c' where item: "item = (k', c')" by (cases item)
  from Cons.prems(1) item obtain v' row' where
    c': "c' = Inr v'" and rest: "build_dict items = Inr row'" and row: "row = (k', v') # row'"
    by (auto split: sum.splits)
  show ?case
  proof (cases "k = k'")
    case True
    with Cons.prems(2) item c' row show ?thesis by simp
  next
    case False
    with Cons.prems(2) item have "map_of items k = Some c" by simp
    from Cons.IH [OF rest this] False row show ?thesis by simp
  qed
qed

lemma build_dict_Inr_iff:
  "(\<exists>row. build_dict items = Inr row) \<longleftrightarrow> (\<forall>kc \<in> set items. \<exists>v. snd kc = Inr v)"
proof (induction items)
  case Nil
  then show ?case by simp
next
  case (Cons item items)
  obtain k c where item: "item = (k, c)" by (cases item)
  show ?case
    using Cons.IH item by (cases c; cases "build_dict items") auto
qed

lemma build_dict_Inl:
  "build_dict items = Inl e \<Longrightarrow> \<exists>kc \<in> set items. snd kc = Inl e"
proof (induction items)
  case Nil
  then show ?case by simp
next
  case (Cons item items)
  obtain k c where item: "item = (k, c)" by (cases item)
  with Cons show ?case
    by (cases c; cases "build_dict items") auto
qed

lemma map_of_filter_neq:
  "map_of (filter (\<lambda>kv. fst kv \<noteq> col) row) c = (if c = col then None else map_of row c)"
  by (induction row) auto

text \<open>What a successful run of the flattener has computed.\<close>

lemma json_to_dataframe_InrD:
  assumes "json_to_dataframe r = Inr df"
  obtains attributes entity registration row name where
    "subscript2 r ''data'' ''attributes'' = Inr attributes"
    "subscript attributes ''entity'' = Inr entity"
    "subscript attributes ''registration'' = Inr registration"
    "build_dict (flat_data_items attributes entity registration) = Inr row"
    "map_of row ''Legal Name'' = Some name"
    "df = [\<lparr>label = Some name, cells = filter (\<lambda>kv. fst kv \<noteq> ''Legal Name'') row\<rparr>]"
proof -
  from assms obtain attributes entity registration row where
    a: "subscript2 r ''data'' ''attributes'' = Inr attributes"
    and e: "subscript attributes ''entity'' = Inr entity"
    and g: "subscript attributes ''registration'' = Inr registration"
    and b: "build_dict (flat_data_items attributes entity registration) = Inr row"
    and s: "set_index ''Legal Name'' (DataFrame1 row) = Inr df"
    unfolding json_to_dataframe_def and_then_Inr by blast
  from s obtain name where "map_of row ''Legal Name'' = Some name"
    "df = [\<lparr>label = Some name, cells = filter (\<lambda>kv. fst kv \<noteq> ''Legal Name'') row\<rparr>]"
    by (auto simp: DataFrame1_def split: option.splits)
  with a e g b that show thesis by blast
qed

text \<open>The value of a column in terms of the record, for a successful run.\<close>

lemma flat_cell:
  assumes "json_to_dataframe r = Inr df"
    and "subscript2 r ''data'' ''attributes'' = Inr attributes"
    and "subscript attributes ''entity'' = Inr entity"
    and "subscript attributes ''registration'' = Inr registration"
    and "map_of (flat_data_items attributes entity registration) c = Some ev"
    and "c \<noteq> ''Legal Name''"
  shows "\<exists>v. ev = Inr v \<and> cell_of df c = Some v"
proof -
  from assms(1) obtain attributes' entity' registration' row name where
    a: "subscript2 r ''data'' ''attributes'' = Inr attributes'"
    and e: "subscript attributes' ''entity'' = Inr entity'"
    and g: "subscript attributes' ''registration'' = Inr registration'"
    and b: "build_dict (flat_data_items attributes' entity' registration') = Inr row"
    and df: "df = [\<lparr>label = Some name, cells = filter (\<lambda>kv. fst kv \<noteq> ''Legal Name'') row\<rparr>]"
    by (rule json_to_dataframe_InrD)
  from a e g assms(2-4) have "attributes' = attributes" "entity' = entity" "registration' = registration"
    by simp_all
  with b have "build_dict (flat_data_items attributes entity registration) = Inr row" by simp
  from build_dict_map_of [OF this assms(5)] obtain v where "ev = Inr v" "map_of row c = Some v"
    by blast
  with df assms(6) show ?thesis by (simp add: map_of_filter_neq)
qed

lemma resolve1: "resolve v [k] = subscript v k"
  by (simp split: sum.splits)

lemma resolve2: "resolve v [k1, k2] = subscript2 v k1 k2"
  by (simp add: subscript2_def and_then_def split: sum.splits)


lemma resolve_entity:
  "subscript2 r ''data'' ''attributes'' = Inr a \<Longrightarrow> subscript a ''entity'' = Inr e \<Longrightarrow>
   resolve r (''data'' # ''attributes'' # ''entity'' # p) = resolve e p"
  by (auto simp: subscript2_def and_then_def split: sum.splits)



lemma first_transliterated_empty:
  "subscript e ''transliteratedOtherNames'' = Inr (JArr []) \<Longrightarrow> first_transliterated e k = Inr JNull"
  by (simp add: first_transliterated_def and_then_def)

lemma first_transliterated_Cons:
  "subscript e ''transliteratedOtherNames'' = Inr (JArr (x # xs)) \<Longrightarrow>
   first_transliterated e k = subscript x k"
  by (simp add: first_transliterated_def and_then_def)

lemma joined_lines_InrD: "joined_lines e k1 k2 = Inr v \<Longrightarrow> \<exists>w. subscript2 e k1 k2 = Inr w"
  by (auto simp: joined_lines_def and_then_Inr)

lemma joined_codes_InrD: "joined_codes a k = Inr v \<Longrightarrow> \<exists>w. subscript a k = Inr w"
  by (auto simp: joined_codes_def and_then_Inr)

lemma first_transliterated_InrD:
  "first_transliterated e k = Inr v \<Longrightarrow> \<exists>w. subscript e ''transliteratedOtherNames'' = Inr w"
  by (auto simp: first_transliterated_def and_then_Inr)

lemma items_evaluated:
  assumes "build_dict (flat_data_items a e g) = Inr row"
  shows "\<forall>kc \<in> set (flat_data_items a e g). \<exists>v. snd kc = Inr v"
  using assms build_dict_Inr_iff [of "flat_data_items a e g"] by blast

lemma attribute_paths_resolve:
  assumes "build_dict (flat_data_items a e g) = Inr row" and "p \<in> set attribute_paths"
  shows "\<exists>v. resolve a p = Inr v"
proof -
  have "\<forall>kc \<in> set (flat_data_items a e g). \<exists>v. snd kc = Inr v"
    using assms(1) by (rule items_evaluated)
  then have "(\<exists>v. subscript a ''lei'' = Inr v) \<and> (\<exists>v. joined_codes a ''bic'' = Inr v)
     \<and> (\<exists>v. subscript a ''mic'' = Inr v) \<and> (\<exists>v. subscript a ''ocid'' = Inr v)
     \<and> (\<exists>v. joined_codes a ''spglobal'' = Inr v) \<and> (\<exists>v. subscript a ''conformityFlag'' = Inr v)"
    by (simp add: flat_data_items_def)
  then have "\<forall>p \<in> set attribute_paths. \<exists>v. resolve a p = Inr v"
    unfolding attribute_paths_def by (auto simp only: list.set ball_simps resolve1 dest: joined_codes_InrD)
  with assms(2) show ?thesis by blast
qed


lemma registration_paths_resolve:
  assumes "build_dict (flat_data_items a e g) = Inr row" and "p \<in> set registration_paths"
  shows "\<exists>v. resolve g p = Inr v"
proof -
  have "\<forall>kc \<in> set (flat_data_items a e g). \<exists>v. snd kc = Inr v"
    using assms(1) by (rule items_evaluated)
  then have "(\<exists>v. subscript g ''initialRegistrationDate'' = Inr v)
     \<and> (\<exists>v. subscript g ''lastUpdateDate'' = Inr v)
     \<and> (\<exists>v. subscript g ''nextRenewalDate'' = Inr v)
     \<and> (\<exists>v. subscript g ''status'' = Inr v)
     \<and> (\<exists>v. subscript g ''managingLou'' = Inr v)
     \<and> (\<exists>v. subscript g ''corroborationLevel'' = Inr v)
     \<and> (\<exists>v. subscript2 g ''validatedAt'' ''id'' = Inr v)
     \<and> (\<exists>v. subscript g ''validatedAs'' = Inr v)"
    by (simp add: flat_data_items_def)
  then have "\<forall>p \<in> set registration_paths. \<exists>v. resolve g p = Inr v"
    unfolding registration_paths_def by (auto simp only: list.set ball_simps resolve1 resolve2)
  with assms(2) show ?thesis by blast
qed

lemma entity_paths_resolve:
  assumes "build_dict (flat_data_items a e g) = Inr row" and "p \<in> set entity_paths"
  shows "\<exists>v. resolve e p = Inr v"
proof -
  have "\<forall>kc \<in> set (flat_data_items a e g). \<exists>v. snd kc = Inr v"
    using assms(1) by (rule items_evaluated)
  then have "(\<exists>v. subscript2 e ''legalName'' ''name'' = Inr v)
     \<and> (\<exists>v. subscript2 e ''legalName'' ''language'' = Inr v)
     \<and> (\<exists>v. first_transliterated e ''name'' = Inr v)
     \<and> (\<exists>v. joined_lines e ''legalAddress'' ''addressLines'' = Inr v)
     \<and> (\<exists>v. subscript2 e ''legalAddress'' ''language'' = Inr v)
     \<and> (\<exists>v. subscript2 e ''legalAddress'' ''city'' = Inr v)
     \<and> (\<exists>v. subscript2 e ''legalAddress'' ''region'' = Inr v)
     \<and> (\<exists>v. subscript2 e ''legalAddress'' ''country'' = Inr v)
     \<and> (\<exists>v. subscript2 e ''legalAddress'' ''postalCode'' = Inr v)
     \<and> (\<exists>v. joined_lines e ''headquartersAddress'' ''addressLines'' = Inr v)
     \<and> (\<exists>v. subscript2 e ''headquartersAddress'' ''language'' = Inr v)
     \<and> (\<exists>v. subscript2 e ''headquartersAddress'' ''city'' = Inr v)
     \<and> (\<exists>v. subscript2 e ''headquartersAddress'' ''region'' = Inr v)
     \<and> (\<exists>v. subscript2 e ''headquartersAddress'' ''country'' = Inr v)
     \<and> (\<exists>v. subscript2 e ''headquartersAddress'' ''postalCode'' = Inr v)
     \<and> (\<exists>v. subscript e ''jurisdiction'' = Inr v)
     \<and> (\<exists>v. subscript e ''category'' = Inr v)
     \<and> (\<exists>v. subscript2 e ''legalForm'' ''id'' = Inr v)
     \<and> (\<exists>v. subscript2 e ''registeredAt'' ''id'' = Inr v)
     \<and> (\<exists>v. subscript e ''registeredAs'' = Inr v)
     \<and> (\<exists>v. subscript e ''status'' = Inr v)
     \<and> (\<exists>v. subscript e ''creationDate'' = Inr v)
     \<and> (\<exists>v. subscript2 e ''expiration'' ''date'' = Inr v)
     \<and> (\<exists>v. subscript2 e ''expiration'' ''reason'' = Inr v)
     \<and> (\<exists>v. subscript2 e ''associatedEntity'' ''lei'' = Inr v)
     \<and> (\<exists>v. subscript2 e ''associatedEntity'' ''name'' = Inr v)"
    by (simp add: flat_data_items_def)
  then have "\<forall>p \<in> set entity_paths. \<exists>v. resolve e p = Inr v"
    unfolding entity_paths_def
    by (auto simp only: list.set ball_simps resolve1 resolve2
          dest: joined_lines_InrD first_transliterated_InrD)
  with assms(2) show ?thesis by blast
qed

text \<open>A record that flattens has every path that the flattener reads without a guard.\<close>

lemma flatten_requires:
  assumes "json_to_dataframe r = Inr df" and "p \<in> set required_paths"
  shows "\<exists>v. resolve r p = Inr v"
proof -
  from assms(1) obtain a e g row where
    a: "subscript2 r ''data'' ''attributes'' = Inr a"
    and e: "subscript a ''entity'' = Inr e"
    and g: "subscript a ''registration'' = Inr g"
    and b: "build_dict (flat_data_items a e g) = Inr row"
    by (rule json_to_dataframe_InrD)
  have ra: "resolve r ([''data'', ''attributes''] @ q) = resolve a q" for q
    using a by (auto simp: subscript2_def and_then_def split: sum.splits)
  have re: "resolve r ([''data'', ''attributes'', ''entity''] @ q) = resolve e q" for q
    using a e by (auto simp: subscript2_def and_then_def split: sum.splits)
  have rg: "resolve r ([''data'', ''attributes'', ''registration''] @ q) = resolve g q" for q
    using a g by (auto simp: subscript2_def and_then_def split: sum.splits)
  from assms(2) consider
      "p = [''data'', ''attributes'']"
    | "p = [''data'', ''attributes'', ''entity'']"
    | "p = [''data'', ''attributes'', ''registration'']"
    | q where "q \<in> set attribute_paths" "p = [''data'', ''attributes''] @ q"
    | q where "q \<in> set entity_paths" "p = [''data'', ''attributes'', ''entity''] @ q"
    | q where "q \<in> set registration_paths" "p = [''data'', ''attributes'', ''registration''] @ q"
    unfolding required_paths_def by auto
  then show ?thesis
  proof cases
    case 1
    with ra [of "[]"] show ?thesis by simp
  next
    case 2
    with re [of "[]"] show ?thesis by simp
  next
    case 3
    with rg [of "[]"] show ?thesis by simp
  next
    case 4
    with attribute_paths_resolve [OF b] ra show ?thesis by simp
  next
    case 5
    with entity_paths_resolve [OF b] re show ?thesis by simp
  next
    case 6
    with registration_paths_resolve [OF b] rg show ?thesis by simp
  qed
qed

lemma subscript_InlD: "subscript v k = Inl e \<Longrightarrow> e = TypeError \<or> e = KeyError (JStr k)"
  by (cases v) (auto split: option.splits)

lemma subscript2_InlD:
  "subscript2 v k1 k2 = Inl e \<Longrightarrow> e = TypeError \<or> e = KeyError (JStr k1) \<or> e = KeyError (JStr k2)"
  by (auto simp: subscript2_def and_then_Inl dest: subscript_InlD)

lemma py_join_InlD: "py_join sep v = Inl e \<Longrightarrow> e = TypeError"
  by (cases v) (auto split: option.splits)

lemma joined_lines_InlD:
  "joined_lines v k1 k2 = Inl e \<Longrightarrow> e = TypeError \<or> e = KeyError (JStr k1) \<or> e = KeyError (JStr k2)"
  by (auto simp: joined_lines_def and_then_Inl dest: subscript2_InlD py_join_InlD)

lemma joined_codes_InlD:
  "joined_codes a k = Inl e \<Longrightarrow> e = TypeError \<or> e = KeyError (JStr k)"
  by (auto simp: joined_codes_def and_then_Inl dest: subscript_InlD py_join_InlD split: if_splits)

lemma subscript0_InlD:
  "subscript0 t = Inl e \<Longrightarrow> py_truthy t \<Longrightarrow> e = TypeError \<or> e = KeyError (JInt 0)"
  by (cases t rule: subscript0.cases) auto

lemma first_transliterated_InlD:
  "first_transliterated ent k = Inl e \<Longrightarrow>
   e = TypeError \<or> e = KeyError (JInt 0) \<or> e = KeyError (JStr ''transliteratedOtherNames'')
   \<or> e = KeyError (JStr k)"
  by (auto simp: first_transliterated_def and_then_Inl dest: subscript_InlD subscript0_InlD
      split: if_splits)

lemma single_key_error_intros:
  "single_key_error TypeError" "single_key_error (KeyError (JInt 0))"
  "k \<in> set schema_keys \<Longrightarrow> single_key_error (KeyError (JStr k))"
  by (auto simp: single_key_error_def list_ex_iff)

lemma subscript_single_key: "subscript v k = Inl e \<Longrightarrow> k \<in> set schema_keys \<Longrightarrow> single_key_error e"
  by (auto dest!: subscript_InlD intro: single_key_error_intros)

lemma subscript2_single_key:
  "subscript2 v k1 k2 = Inl e \<Longrightarrow> k1 \<in> set schema_keys \<Longrightarrow> k2 \<in> set schema_keys \<Longrightarrow> single_key_error e"
  by (auto dest!: subscript2_InlD intro: single_key_error_intros)

lemma joined_lines_single_key:
  "joined_lines v k1 k2 = Inl e \<Longrightarrow> k1 \<in> set schema_keys \<Longrightarrow> k2 \<in> set schema_keys \<Longrightarrow> single_key_error e"
  by (auto dest!: joined_lines_InlD intro: single_key_error_intros)

lemma joined_codes_single_key: "joined_codes v k = Inl e \<Longrightarrow> k \<in> set schema_keys \<Longrightarrow> single_key_error e"
  by (auto dest!: joined_codes_InlD intro: single_key_error_intros)

lemma first_transliterated_single_key: "first_transliterated v k = Inl e \<Longrightarrow> k \<in> set schema_keys \<Longrightarrow> single_key_error e"
  by (auto dest!: first_transliterated_InlD intro: single_key_error_intros simp: schema_keys_def)

lemma items_errors:
  "\<forall>kc \<in> set (flat_data_items a e g). \<forall>err. snd kc = Inl err \<longrightarrow> single_key_error err"
  unfolding flat_data_items_def
  apply (simp only: list.set ball_simps snd_conv)
  apply (intro conjI allI impI TrueI)
  apply (erule subscript_single_key subscript2_single_key joined_lines_single_key joined_codes_single_key first_transliterated_single_key; simp add: schema_keys_def)+
  done

lemma flatten_error_shape:
  assumes "json_to_dataframe r = Inl err"
  shows "single_key_error err"
proof -
  have keys: "''data'' \<in> set schema_keys" "''attributes'' \<in> set schema_keys"
    "''entity'' \<in> set schema_keys" "''registration'' \<in> set schema_keys"
    by (simp_all add: schema_keys_def)
  from assms consider
      "subscript2 r ''data'' ''attributes'' = Inl err"
    | a where "subscript a ''entity'' = Inl err"
    | a where "subscript a ''registration'' = Inl err"
    | a e g where "build_dict (flat_data_items a e g) = Inl err"
    | a e g row where "build_dict (flat_data_items a e g) = Inr row"
        "set_index ''Legal Name'' (DataFrame1 row) = Inl err"
    unfolding json_to_dataframe_def and_then_Inl by blast
  then show ?thesis
  proof cases
    case 1
    then show ?thesis using keys by (blast intro: subscript2_single_key)
  next
    case 2
    then show ?thesis using keys by (blast intro: subscript_single_key)
  next
    case 3
    then show ?thesis using keys by (blast intro: subscript_single_key)
  next
    case 4
    from build_dict_Inl [OF this] items_errors show ?thesis by blast
  next
    case 5
    have "map_of (flat_data_items a e g) ''Legal Name'' = Some (subscript2 e ''legalName'' ''name'')"
      by (simp add: flat_data_items_def)
    from build_dict_map_of [OF 5(1) this] obtain v where "map_of row ''Legal Name'' = Some v"
      by blast
    with 5(2) show ?thesis by (simp add: DataFrame1_def)
  qed
qed

lemma map_of_map_key:
  "map_of (map (\<lambda>kv. if fst kv = k then (fst kv, f (snd kv)) else kv) kvs) k'
     = (if k' = k then map_option f (map_of kvs k) else map_of kvs k')"
  by (induction kvs) auto

lemma subscript_set_key_other:
  "k' \<noteq> k \<Longrightarrow> subscript (set_key (k # ks) new v) k' = subscript v k'"
  by (cases v) (simp_all add: map_of_map_key)

lemma subscript_set_key_same:
  "subscript v k = Inr x \<Longrightarrow> subscript (set_key (k # ks) new v) k = Inr (set_key ks new x)"
  by (cases v) (auto simp: map_of_map_key split: option.splits)

lemma subscript2_set_key_other:
  "k1 \<noteq> k \<Longrightarrow> subscript2 (set_key (k # ks) new v) k1 k2 = subscript2 v k1 k2"
  by (simp add: subscript2_def subscript_set_key_other)

lemma joined_lines_set_key_other:
  "k1 \<noteq> k \<Longrightarrow> joined_lines (set_key (k # ks) new v) k1 k2 = joined_lines v k1 k2"
  by (simp add: joined_lines_def subscript2_set_key_other)

lemma joined_codes_set_key_other:
  "k' \<noteq> k \<Longrightarrow> joined_codes (set_key (k # ks) new v) k' = joined_codes v k'"
  by (simp add: joined_codes_def subscript_set_key_other cong: if_cong)

lemma items_without_names:
  assumes all: "\<forall>kc \<in> set (flat_data_items a e g). \<exists>v. snd kc = Inr v"
    and names: "\<And>k. first_transliterated e' k = Inr JNull"
    and e': "e' = set_key [''transliteratedOtherNames''] new e"
    and a': "a' = set_key (''entity'' # ks) new a"
  shows "\<forall>kc \<in> set (flat_data_items a' e' g). \<exists>v. snd kc = Inr v"
  using all unfolding flat_data_items_def e' a'
  by (simp add: subscript_set_key_other subscript2_set_key_other joined_lines_set_key_other
        joined_codes_set_key_other names [unfolded e'])

lemma flatten_without_names:
  assumes "json_to_dataframe r = Inr df"
  shows "\<exists>df'. json_to_dataframe
                 (set_key [''data'', ''attributes'', ''entity'', ''transliteratedOtherNames'']
                    (JArr []) r) = Inr df'"
proof -
  let ?new = "JArr []"
  let ?r' = "set_key [''data'', ''attributes'', ''entity'', ''transliteratedOtherNames''] ?new r"
  from assms obtain a e g row where
    a: "subscript2 r ''data'' ''attributes'' = Inr a"
    and e: "subscript a ''entity'' = Inr e"
    and g: "subscript a ''registration'' = Inr g"
    and b: "build_dict (flat_data_items a e g) = Inr row"
    by (rule json_to_dataframe_InrD)
  define a' where "a' = set_key [''entity'', ''transliteratedOtherNames''] ?new a"
  define e' where "e' = set_key [''transliteratedOtherNames''] ?new e"
  from a have a'1: "subscript2 ?r' ''data'' ''attributes'' = Inr a'"
    by (auto simp: subscript2_def and_then_Inr a'_def subscript_set_key_same)
  from e have e'1: "subscript a' ''entity'' = Inr e'"
    by (simp add: a'_def e'_def subscript_set_key_same)
  from g have g'1: "subscript a' ''registration'' = Inr g"
    by (simp add: a'_def subscript_set_key_other)
  have all: "\<forall>kc \<in> set (flat_data_items a e g). \<exists>v. snd kc = Inr v"
    using b by (rule items_evaluated)
  then have "\<exists>v. first_transliterated e ''name'' = Inr v"
    by (simp add: flat_data_items_def)
  then obtain t where "subscript e ''transliteratedOtherNames'' = Inr t"
    by (blast dest: first_transliterated_InrD)
  then have "subscript e' ''transliteratedOtherNames'' = Inr (JArr [])"
    by (simp add: e'_def subscript_set_key_same)
  then have names: "first_transliterated e' k = Inr JNull" for k
    by (rule first_transliterated_empty)
  have "\<forall>kc \<in> set (flat_data_items a' e' g). \<exists>v. snd kc = Inr v"
    using all names e'_def a'_def by (rule items_without_names)
  then obtain row' where b': "build_dict (flat_data_items a' e' g) = Inr row'"
    using build_dict_Inr_iff [of "flat_data_items a' e' g"] by blast
  have "map_of (flat_data_items a' e' g) ''Legal Name'' = Some (subscript2 e' ''legalName'' ''name'')"
    by (simp add: flat_data_items_def)
  from build_dict_map_of [OF b' this] obtain v where "map_of row' ''Legal Name'' = Some v"
    by blast
  then have "\<exists>df'. set_index ''Legal Name'' (DataFrame1 row') = Inr df'"
    by (simp add: DataFrame1_def)
  with a'1 e'1 g'1 b' show ?thesis
    by (auto simp: json_to_dataframe_def and_then_def)
qed

lemma resolve_set_key:
  "\<not> isl (resolve r p) \<Longrightarrow> resolve (set_key p new r) p = Inr new"
proof (induction p arbitrary: r)
  case Nil
  then show ?case by simp
next
  case (Cons k ks)
  then obtain x where x: "subscript r k = Inr x" and "\<not> isl (resolve x ks)"
    by (auto split: sum.splits)
  with Cons.IH [of x] subscript_set_key_same [OF x, of ks new] show ?case by simp
qed

section \<open>The claims about the flattener\<close>




text \<open>
  Claim C6.  Take any record that flattens.  With its list of transliterated names emptied
  it still flattens, and the three columns of the transliterated name are \<^verbatim>\<open>None\<close>; if
  its list is empty, the three columns of its own frame are \<^verbatim>\<open>None\<close>; if its list is
  not empty, the three columns hold the name, the language and the type of the first
  entry, whatever the other entries are.
\<close>

theorem first_transliterated_name_only:
  assumes "json_to_dataframe r = Inr df"
  shows
    "(\<exists>df'. json_to_dataframe
              (set_key [''data'', ''attributes'', ''entity'', ''transliteratedOtherNames'']
                 (JArr []) r) = Inr df'
          \<and> cell_of df' ''Transliterated Legal Name'' = Some JNull
          \<and> cell_of df' ''Transliterated Legal Name Language'' = Some JNull
          \<and> cell_of df' ''Transliterated Legal Name Type'' = Some JNull)
     \<and> (resolve r [''data'', ''attributes'', ''entity'', ''transliteratedOtherNames'']
           = Inr (JArr [])
          \<longrightarrow> cell_of df ''Transliterated Legal Name'' = Some JNull
            \<and> cell_of df ''Transliterated Legal Name Language'' = Some JNull
            \<and> cell_of df ''Transliterated Legal Name Type'' = Some JNull)
     \<and> (\<forall>x xs. resolve r [''data'', ''attributes'', ''entity'', ''transliteratedOtherNames'']
                  = Inr (JArr (x # xs))
          \<longrightarrow> (\<exists>n l t. subscript x ''name'' = Inr n \<and> subscript x ''language'' = Inr l
                     \<and> subscript x ''type'' = Inr t
                     \<and> cell_of df ''Transliterated Legal Name'' = Some n
                     \<and> cell_of df ''Transliterated Legal Name Language'' = Some l
                     \<and> cell_of df ''Transliterated Legal Name Type'' = Some t))"
proof -
  let ?P = "[''data'', ''attributes'', ''entity'', ''transliteratedOtherNames'']"
  have columns: "map_of (flat_data_items a e g) ''Transliterated Legal Name''
                   = Some (first_transliterated e ''name'')"
    "map_of (flat_data_items a e g) ''Transliterated Legal Name Language''
       = Some (first_transliterated e ''language'')"
    "map_of (flat_data_items a e g) ''Transliterated Legal Name Type''
       = Some (first_transliterated e ''type'')" for a e g
    by (simp_all add: flat_data_items_def)
  have empty: "cell_of d ''Transliterated Legal Name'' = Some JNull
      \<and> cell_of d ''Transliterated Legal Name Language'' = Some JNull
      \<and> cell_of d ''Transliterated Legal Name Type'' = Some JNull"
    if ok: "json_to_dataframe s = Inr d" and t: "resolve s ?P = Inr (JArr [])" for s d
  proof -
    from ok obtain a e g where
      a: "subscript2 s ''data'' ''attributes'' = Inr a"
      and e: "subscript a ''entity'' = Inr e"
      and g: "subscript a ''registration'' = Inr g"
      by (rule json_to_dataframe_InrD)
    from t have "subscript e ''transliteratedOtherNames'' = Inr (JArr [])"
      by (simp only: resolve_entity [OF a e] resolve1)
    then have "first_transliterated e k = Inr JNull" for k
      by (rule first_transliterated_empty)
    with flat_cell [OF ok a e g columns(1)] flat_cell [OF ok a e g columns(2)]
      flat_cell [OF ok a e g columns(3)]
    show ?thesis by simp
  qed
  have first: "\<exists>n l t. subscript x ''name'' = Inr n \<and> subscript x ''language'' = Inr l
                     \<and> subscript x ''type'' = Inr t
                     \<and> cell_of df ''Transliterated Legal Name'' = Some n
                     \<and> cell_of df ''Transliterated Legal Name Language'' = Some l
                     \<and> cell_of df ''Transliterated Legal Name Type'' = Some t"
    if t: "resolve r ?P = Inr (JArr (x # xs))" for x xs
  proof -
    from assms obtain a e g where
      a: "subscript2 r ''data'' ''attributes'' = Inr a"
      and e: "subscript a ''entity'' = Inr e"
      and g: "subscript a ''registration'' = Inr g"
      by (rule json_to_dataframe_InrD)
    from t have "subscript e ''transliteratedOtherNames'' = Inr (JArr (x # xs))"
      by (simp only: resolve_entity [OF a e] resolve1)
    then have "first_transliterated e k = subscript x k" for k
      by (rule first_transliterated_Cons)
    with flat_cell [OF assms a e g columns(1)] flat_cell [OF assms a e g columns(2)]
      flat_cell [OF assms a e g columns(3)]
    show ?thesis by auto
  qed
  from flatten_without_names [OF assms] obtain df' where
    ok': "json_to_dataframe (set_key ?P (JArr []) r) = Inr df'" by blast
  from flatten_requires [OF assms, of ?P] have "\<not> isl (resolve r ?P)"
    by (auto simp: required_paths_def entity_paths_def)
  then have "resolve (set_key ?P (JArr []) r) ?P = Inr (JArr [])"
    by (rule resolve_set_key)
  from empty [OF ok' this] ok' empty [OF assms] first show ?thesis by blast
qed

theorem first_transliterated_name_only_witness:
  "(case json_to_dataframe (sample_record (JArr []) (JArr []) JNull JNull) of
      Inl e \<Rightarrow> False
    | Inr df \<Rightarrow> cell_of df ''Transliterated Legal Name'' = Some JNull
              \<and> cell_of df ''Transliterated Legal Name Language'' = Some JNull
              \<and> cell_of df ''Transliterated Legal Name Type'' = Some JNull)
   \<and> (case json_to_dataframe (sample_record sample_names (JArr []) JNull JNull) of
      Inl e \<Rightarrow> False
    | Inr df \<Rightarrow> cell_of df ''Transliterated Legal Name'' = Some (JStr ''Example Securities Ltd'')
              \<and> cell_of df ''Transliterated Legal Name Language'' = Some (JStr ''en'')
              \<and> cell_of df ''Transliterated Legal Name Type''
                  = Some (JStr ''PREFERRED_ASCII_TRANSLITERATED_LEGAL_NAME''))"
proof -
  let ?P = "[''data'', ''attributes'', ''entity'', ''transliteratedOtherNames'']"
  let ?r0 = "sample_record (JArr []) (JArr []) JNull JNull"
  let ?r1 = "sample_record sample_names (JArr []) JNull JNull"
  let ?x = "JObj [(''name'', JStr ''Example Securities Ltd''), (''language'', JStr ''en''),
                  (''type'', JStr ''PREFERRED_ASCII_TRANSLITERATED_LEGAL_NAME'')]"
  have "\<not> isl (json_to_dataframe ?r0)" by code_simp
  then obtain df0 where ok0: "json_to_dataframe ?r0 = Inr df0"
    by (cases "json_to_dataframe ?r0") auto
  have "\<not> isl (json_to_dataframe ?r1)" by code_simp
  then obtain df1 where ok1: "json_to_dataframe ?r1 = Inr df1"
    by (cases "json_to_dataframe ?r1") auto
  have t0: "resolve ?r0 ?P = Inr (JArr [])" by code_simp
  have t1: "resolve ?r1 ?P
              = Inr (JArr [?x, JObj [(''name'', JStr ''Example Valeurs SA''),
                                     (''language'', JStr ''fr''),
                                     (''type'', JStr ''AUTO_ASCII_TRANSLITERATED_LEGAL_NAME'')]])"
    by code_simp
  from first_transliterated_name_only [OF ok0] t0
  have 0: "cell_of df0 ''Transliterated Legal Name'' = Some JNull
         \<and> cell_of df0 ''Transliterated Legal Name Language'' = Some JNull
         \<and> cell_of df0 ''Transliterated Legal Name Type'' = Some JNull"
    by blast
  from first_transliterated_name_only [OF ok1] t1
  have "\<exists>n l t. subscript ?x ''name'' = Inr n \<and> subscript ?x ''language'' = Inr l
                     \<and> subscript ?x ''type'' = Inr t
                     \<and> cell_of df1 ''Transliterated Legal Name'' = Some n
                     \<and> cell_of df1 ''Transliterated Legal Name Language'' = Some l
                     \<and> cell_of df1 ''Transliterated Legal Name Type'' = Some t"
    by blast
  then have 1: "cell_of df1 ''Transliterated Legal Name'' = Some (JStr ''Example Securities Ltd'')
         \<and> cell_of df1 ''Transliterated Legal Name Language'' = Some (JStr ''en'')
         \<and> cell_of df1 ''Transliterated Legal Name Type''
              = Some (JStr ''PREFERRED_ASCII_TRANSLITERATED_LEGAL_NAME'')"
    by auto
  from 0 1 ok0 ok1 show ?thesis by simp
qed

section \<open>Removing a key from a record\<close>

lemma subscript_remove_other:
  assumes "k' \<noteq> k"
  shows "subscript (remove_key (k # ks) v) k' = subscript v k'"
  using assms by (cases v; cases ks) (simp_all add: map_of_filter_neq map_of_map_key)

lemma subscript_remove_hit:
  "\<not> isl (subscript v k) \<Longrightarrow> subscript (remove_key [k] v) k = Inl (KeyError (JStr k))"
  by (cases v) (simp_all add: map_of_filter_neq)

lemma subscript_remove_inner:
  "subscript v k = Inr x
   \<Longrightarrow> subscript (remove_key (k # k' # ks) v) k = Inr (remove_key (k' # ks) x)"
  by (cases v) (auto simp: map_of_map_key split: option.splits)

lemma subscript_remove_inner_Inl:
  "subscript v k = Inl err \<Longrightarrow> subscript (remove_key (k # k' # ks) v) k = Inl err"
  by (cases v) (auto simp: map_of_map_key split: option.splits)

lemma subscript2_remove_other:
  "k1' \<noteq> k1 \<Longrightarrow> subscript2 (remove_key (k1 # ks) v) k1' k2' = subscript2 v k1' k2'"
  by (simp add: subscript2_def subscript_remove_other)

lemma subscript2_remove_sibling:
  "k2' \<noteq> k2 \<Longrightarrow> subscript2 (remove_key [k1, k2] v) k1 k2' = subscript2 v k1 k2'"
  by (cases "subscript v k1")
     (simp_all add: subscript2_def and_then_def subscript_remove_inner
        subscript_remove_inner_Inl subscript_remove_other)

lemma subscript2_remove_hit:
  "\<not> isl (subscript2 v k1 k2)
   \<Longrightarrow> subscript2 (remove_key [k1, k2] v) k1 k2 = Inl (KeyError (JStr k2))"
  by (cases "subscript v k1")
     (simp_all add: subscript2_def and_then_def subscript_remove_inner subscript_remove_hit)

lemma subscript2_remove_inner:
  "subscript2 v k1 k2 = Inr x
   \<Longrightarrow> subscript2 (remove_key (k1 # k2 # k3 # ks) v) k1 k2 = Inr (remove_key (k3 # ks) x)"
  by (auto simp: subscript2_def and_then_Inr subscript_remove_inner)

lemma joined_lines_remove_other:
  "k1' \<noteq> k1 \<Longrightarrow> joined_lines (remove_key (k1 # ks) v) k1' k2' = joined_lines v k1' k2'"
  by (simp add: joined_lines_def subscript2_remove_other)

lemma joined_lines_remove_sibling:
  "k2' \<noteq> k2 \<Longrightarrow> joined_lines (remove_key [k1, k2] v) k1 k2' = joined_lines v k1 k2'"
  by (simp add: joined_lines_def subscript2_remove_sibling)

lemma joined_lines_remove_hit:
  "\<not> isl (joined_lines v k1 k2)
   \<Longrightarrow> joined_lines (remove_key [k1, k2] v) k1 k2 = Inl (KeyError (JStr k2))"
  by (cases "subscript2 v k1 k2")
     (simp_all add: joined_lines_def and_then_def subscript2_remove_hit)

lemma joined_codes_remove_other:
  "k' \<noteq> k \<Longrightarrow> joined_codes (remove_key (k # ks) v) k' = joined_codes v k'"
  by (simp add: joined_codes_def subscript_remove_other cong: if_cong)

lemma joined_codes_remove_hit:
  "\<not> isl (joined_codes v k) \<Longrightarrow> joined_codes (remove_key [k] v) k = Inl (KeyError (JStr k))"
  by (cases "subscript v k")
     (simp_all add: joined_codes_def and_then_def subscript_remove_hit)

lemma first_transliterated_remove_other:
  "k \<noteq> ''transliteratedOtherNames''
   \<Longrightarrow> first_transliterated (remove_key (k # ks) v) k' = first_transliterated v k'"
  by (simp add: first_transliterated_def subscript_remove_other cong: if_cong)

lemma first_transliterated_remove_hit:
  "\<not> isl (first_transliterated v k')
   \<Longrightarrow> first_transliterated (remove_key [''transliteratedOtherNames''] v) k'
       = Inl (KeyError (JStr ''transliteratedOtherNames''))"
  by (cases "subscript v ''transliteratedOtherNames''")
     (simp_all add: first_transliterated_def and_then_def subscript_remove_hit)

lemma items_not_isl:
  assumes "build_dict (flat_data_items a e g) = Inr row"
  shows "\<forall>kc \<in> set (flat_data_items a e g). \<not> isl (snd kc)"
  using items_evaluated [OF assms] by auto

text \<open>
  Reading a record from which a key has been removed: a read that succeeded before
  succeeds still, or it raises \<^verbatim>\<open>KeyError\<close> with the key removed.
\<close>

lemma raises_only_ok: "\<not> isl c \<Longrightarrow> raises_only err c"
  by (simp add: raises_only_def)

lemma subscript_removed:
  assumes "\<not> isl (subscript v k')"
  shows "raises_only (KeyError (JStr (last (k # ks)))) (subscript (remove_key (k # ks) v) k')"
proof (cases "k' = k")
  case False
  with assms show ?thesis by (simp add: subscript_remove_other raises_only_def)
next
  case True
  from assms obtain x where x: "subscript v k' = Inr x"
    by (cases "subscript v k'") auto
  show ?thesis
  proof (cases ks)
    case Nil
    with True assms show ?thesis by (simp add: subscript_remove_hit raises_only_def)
  next
    case (Cons k2 ks')
    with True x show ?thesis by (simp add: subscript_remove_inner raises_only_def)
  qed
qed

lemma short_path_cases:
  assumes "0 < length q" and "length q \<le> 2"
  obtains k where "q = [k]" | k1 k2 where "q = [k1, k2]"
proof (cases q)
  case Nil
  with assms(1) show ?thesis by simp
next
  case (Cons k ks)
  show ?thesis
  proof (cases ks)
    case Nil
    with Cons that(1) show ?thesis by simp
  next
    case (Cons k2 ks')
    with \<open>q = k # ks\<close> assms(2) that(2) show ?thesis by simp
  qed
qed

lemma subscript2_removed_same:
  assumes "\<not> isl (subscript2 v k1' k2')" and "0 < length q" and "length q \<le> 2"
  shows "subscript2 (remove_key q v) k1' k2' = subscript2 v k1' k2'
         \<or> subscript2 (remove_key q v) k1' k2' = Inl (KeyError (JStr (last q)))"
  using assms(2,3)
proof (cases q rule: short_path_cases)
  case (1 k)
  show ?thesis
  proof (cases "k1' = k")
    case False
    with 1 show ?thesis by (simp add: subscript2_remove_other)
  next
    case True
    from assms(1) have "\<not> isl (subscript v k1')"
      by (cases "subscript v k1'") (auto simp: subscript2_def and_then_def)
    with True 1 show ?thesis
      by (simp add: subscript2_def and_then_def subscript_remove_hit)
  qed
next
  case (2 k1 k2)
  show ?thesis
  proof (cases "k1' = k1")
    case False
    with 2 show ?thesis by (simp add: subscript2_remove_other)
  next
    case True
    with 2 assms(1) show ?thesis
      by (cases "k2' = k2") (simp_all add: subscript2_remove_sibling subscript2_remove_hit)
  qed
qed

lemma subscript2_removed:
  assumes "\<not> isl (subscript2 v k1' k2')" and "0 < length q" and "length q \<le> 2"
  shows "raises_only (KeyError (JStr (last q))) (subscript2 (remove_key q v) k1' k2')"
  using subscript2_removed_same [OF assms] assms(1) by (auto simp: raises_only_def)

lemma joined_lines_removed:
  assumes "\<not> isl (joined_lines v k1' k2')" and "0 < length q" and "length q \<le> 2"
  shows "raises_only (KeyError (JStr (last q))) (joined_lines (remove_key q v) k1' k2')"
proof -
  from assms(1) have "\<not> isl (subscript2 v k1' k2')"
    by (cases "subscript2 v k1' k2'") (auto simp: joined_lines_def and_then_def)
  from subscript2_removed_same [OF this assms(2,3)] assms(1) show ?thesis
    by (auto simp: joined_lines_def and_then_def raises_only_def)
qed

lemma joined_codes_removed:
  assumes "\<not> isl (joined_codes v k')"
  shows "raises_only (KeyError (JStr (last [k]))) (joined_codes (remove_key [k] v) k')"
  using assms
  by (cases "k' = k")
     (simp_all add: joined_codes_remove_other joined_codes_remove_hit raises_only_def)

lemma first_transliterated_removed:
  assumes "\<not> isl (first_transliterated v k')"
    and "length q = 1 \<or> hd q \<noteq> ''transliteratedOtherNames''" and "0 < length q"
  shows "raises_only (KeyError (JStr (last q))) (first_transliterated (remove_key q v) k')"
proof -
  from assms(3) obtain k ks where q: "q = k # ks" by (cases q) auto
  show ?thesis
  proof (cases "k = ''transliteratedOtherNames''")
    case False
    with q assms(1) show ?thesis
      by (simp add: first_transliterated_remove_other raises_only_def)
  next
    case True
    with q assms(2) have "q = [''transliteratedOtherNames'']" by simp
    with assms(1) show ?thesis
      by (simp add: first_transliterated_remove_hit raises_only_def)
  qed
qed

lemma attribute_items_removed:
  assumes ok: "\<forall>kc \<in> set (flat_data_items a e g). \<not> isl (snd kc)"
  shows "\<forall>kc \<in> set (flat_data_items (remove_key [k] a) e g).
           raises_only (KeyError (JStr (last [k]))) (snd kc)"
  using ok unfolding flat_data_items_def
  by (simp add: subscript_removed joined_codes_removed raises_only_ok
        del: last.simps remove_key.simps)

lemma entity_items_removed:
  assumes ok: "\<forall>kc \<in> set (flat_data_items a e g). \<not> isl (snd kc)"
    and q: "0 < length q" "length q \<le> 2"
      "length q = 1 \<or> hd q \<noteq> ''transliteratedOtherNames''"
  shows "\<forall>kc \<in> set (flat_data_items (remove_key (''entity'' # q) a) (remove_key q e) g).
           raises_only (KeyError (JStr (last q))) (snd kc)"
proof -
  obtain k ks where "q = k # ks" using q(1) by (cases q) auto
  then have s: "\<not> isl (subscript e k')
      \<Longrightarrow> raises_only (KeyError (JStr (last q))) (subscript (remove_key q e) k')" for k'
    using subscript_removed [of e k' k ks] by simp
  show ?thesis
    using ok unfolding flat_data_items_def
    by (simp add: s subscript2_removed [OF _ q(1,2)] joined_lines_removed [OF _ q(1,2)]
          first_transliterated_removed [OF _ q(3,1)] raises_only_ok
          subscript_remove_other joined_codes_remove_other
          del: last.simps remove_key.simps)
qed

lemma registration_items_removed:
  assumes ok: "\<forall>kc \<in> set (flat_data_items a e g). \<not> isl (snd kc)"
    and q: "0 < length q" "length q \<le> 2"
  shows "\<forall>kc \<in> set (flat_data_items (remove_key (''registration'' # q) a) e (remove_key q g)).
           raises_only (KeyError (JStr (last q))) (snd kc)"
proof -
  obtain k ks where "q = k # ks" using q(1) by (cases q) auto
  then have s: "\<not> isl (subscript g k')
      \<Longrightarrow> raises_only (KeyError (JStr (last q))) (subscript (remove_key q g) k')" for k'
    using subscript_removed [of g k' k ks] by simp
  show ?thesis
    using ok unfolding flat_data_items_def
    by (simp add: s subscript2_removed [OF _ q(1,2)] raises_only_ok
          subscript_remove_other joined_codes_remove_other
          del: last.simps remove_key.simps)
qed

lemma resolve_remove_key:
  "\<not> isl (resolve r p) \<Longrightarrow> p \<noteq> [] \<Longrightarrow> isl (resolve (remove_key p r) p)"
proof (induction p arbitrary: r)
  case Nil
  then show ?case by simp
next
  case (Cons k ks)
  from Cons.prems(1) obtain x where x: "subscript r k = Inr x" and r: "\<not> isl (resolve x ks)"
    by (auto split: sum.splits)
  show ?case
  proof (cases ks)
    case Nil
    with x subscript_remove_hit [of r k] show ?thesis by simp
  next
    case (Cons k' ks')
    with Cons.IH [of x] r subscript_remove_inner [OF x, of k' ks'] show ?thesis by simp
  qed
qed

text \<open>
  When every entry of the dictionary succeeds or raises one given exception, a flattener
  that raises raises that exception.
\<close>

lemma flatten_fails_with:
  assumes "subscript2 r ''data'' ''attributes'' = Inr a"
    and "subscript a ''entity'' = Inr e"
    and "subscript a ''registration'' = Inr g"
    and all: "\<forall>kc \<in> set (flat_data_items a e g). raises_only err (snd kc)"
    and fails: "isl (json_to_dataframe r)"
  shows "json_to_dataframe r = Inl err"
proof (cases "build_dict (flat_data_items a e g)")
  case (Inl err')
  from build_dict_Inl [OF this] all have "err' = err"
    by (auto simp: raises_only_def)
  with Inl assms(1-3) show ?thesis
    by (simp add: json_to_dataframe_def and_then_def)
next
  case (Inr row)
  have "map_of (flat_data_items a e g) ''Legal Name'' = Some (subscript2 e ''legalName'' ''name'')"
    by (simp add: flat_data_items_def)
  from build_dict_map_of [OF Inr this] obtain v where "map_of row ''Legal Name'' = Some v"
    by blast
  with Inr assms(1-3) have "\<not> isl (json_to_dataframe r)"
    by (simp add: json_to_dataframe_def and_then_def DataFrame1_def)
  with fails show ?thesis by simp
qed

lemma attribute_paths_shape:
  "q \<in> set attribute_paths \<Longrightarrow> \<exists>k. q = [k] \<and> k \<noteq> ''entity'' \<and> k \<noteq> ''registration''"
  by (auto simp: attribute_paths_def)

lemma entity_paths_shape:
  "q \<in> set entity_paths
   \<Longrightarrow> 0 < length q \<and> length q \<le> 2 \<and> (length q = 1 \<or> hd q \<noteq> ''transliteratedOtherNames'')"
  by (auto simp: entity_paths_def)

lemma registration_paths_shape:
  "q \<in> set registration_paths \<Longrightarrow> 0 < length q \<and> length q \<le> 2"
  by (auto simp: registration_paths_def)

text \<open>
  A record that flattens, with the last key of a required path removed: the flattener
  raises \<^verbatim>\<open>KeyError\<close> with that key.
\<close>

lemma flatten_key_removed:
  assumes ok: "json_to_dataframe r = Inr df" and p: "p \<in> set required_paths"
  shows "json_to_dataframe (remove_key p r) = Inl (KeyError (JStr (last p)))"
proof -
  from ok obtain a e g row where
    a: "subscript2 r ''data'' ''attributes'' = Inr a"
    and e: "subscript a ''entity'' = Inr e"
    and g: "subscript a ''registration'' = Inr g"
    and b: "build_dict (flat_data_items a e g) = Inr row"
    by (rule json_to_dataframe_InrD)
  note items = items_not_isl [OF b]
  from flatten_requires [OF ok p] have "\<not> isl (resolve r p)" by auto
  moreover from p have "p \<noteq> []" by (auto simp: required_paths_def)
  ultimately have "isl (resolve (remove_key p r) p)" by (rule resolve_remove_key)
  with flatten_requires [OF _ p, of "remove_key p r"]
  have fails: "isl (json_to_dataframe (remove_key p r))"
    by (cases "json_to_dataframe (remove_key p r)") auto
  from p consider
      "p = [''data'', ''attributes'']"
    | "p = [''data'', ''attributes'', ''entity'']"
    | "p = [''data'', ''attributes'', ''registration'']"
    | q where "q \<in> set attribute_paths" "p = [''data'', ''attributes''] @ q"
    | q where "q \<in> set entity_paths" "p = [''data'', ''attributes'', ''entity''] @ q"
    | q where "q \<in> set registration_paths" "p = [''data'', ''attributes'', ''registration''] @ q"
    unfolding required_paths_def by auto
  then show ?thesis
  proof cases
    case 1
    from a have "\<not> isl (subscript2 r ''data'' ''attributes'')" by simp
    from subscript2_remove_hit [OF this] 1 show ?thesis
      by (simp add: json_to_dataframe_def and_then_def)
  next
    case 2
    from e have "\<not> isl (subscript a ''entity'')" by simp
    from subscript_remove_hit [OF this] subscript2_remove_inner [OF a, of "''entity''" "[]"] 2
    show ?thesis
      by (simp add: json_to_dataframe_def and_then_def)
  next
    case 3
    from g have "\<not> isl (subscript a ''registration'')" by simp
    from subscript_remove_hit [OF this] subscript2_remove_inner [OF a, of "''registration''" "[]"]
      subscript_remove_other [of "''entity''" "''registration''" "[]" a] e 3
    show ?thesis
      by (simp add: json_to_dataframe_def and_then_def)
  next
    case 4
    from attribute_paths_shape [OF 4(1)] obtain k where
      q: "q = [k]" and k: "k \<noteq> ''entity''" "k \<noteq> ''registration''" by blast
    from subscript2_remove_inner [OF a, of k "[]"] 4(2) q
    have a': "subscript2 (remove_key p r) ''data'' ''attributes'' = Inr (remove_key [k] a)"
      by simp
    from e k have e': "subscript (remove_key [k] a) ''entity'' = Inr e"
      by (simp add: subscript_remove_other)
    from g k have g': "subscript (remove_key [k] a) ''registration'' = Inr g"
      by (simp add: subscript_remove_other)
    from flatten_fails_with [OF a' e' g' attribute_items_removed [OF items] fails] 4(2) q
    show ?thesis by simp
  next
    case 5
    from entity_paths_shape [OF 5(1)] have s: "0 < length q" "length q \<le> 2"
      "length q = 1 \<or> hd q \<noteq> ''transliteratedOtherNames''" by simp_all
    then obtain k ks where q: "q = k # ks" by (cases q) auto
    from subscript2_remove_inner [OF a, of "''entity''" q] 5(2)
    have a': "subscript2 (remove_key p r) ''data'' ''attributes''
                = Inr (remove_key (''entity'' # q) a)"
      by simp
    from subscript_remove_inner [OF e, of k ks] q
    have e': "subscript (remove_key (''entity'' # q) a) ''entity'' = Inr (remove_key q e)"
      by simp
    from g have g': "subscript (remove_key (''entity'' # q) a) ''registration'' = Inr g"
      by (simp add: subscript_remove_other)
    from flatten_fails_with [OF a' e' g' entity_items_removed [OF items s] fails] 5(2) q
    show ?thesis by simp
  next
    case 6
    from registration_paths_shape [OF 6(1)] have s: "0 < length q" "length q \<le> 2"
      by simp_all
    then obtain k ks where q: "q = k # ks" by (cases q) auto
    from subscript2_remove_inner [OF a, of "''registration''" q] 6(2)
    have a': "subscript2 (remove_key p r) ''data'' ''attributes''
                = Inr (remove_key (''registration'' # q) a)"
      by simp
    from e have e': "subscript (remove_key (''registration'' # q) a) ''entity'' = Inr e"
      by (simp add: subscript_remove_other)
    from subscript_remove_inner [OF g, of k ks] q
    have g': "subscript (remove_key (''registration'' # q) a) ''registration''
                = Inr (remove_key q g)"
      by simp
    from flatten_fails_with [OF a' e' g' registration_items_removed [OF items s] fails] 6(2) q
    show ?thesis by simp
  qed
qed

subsection \<open>The claim about missing paths\<close>

text \<open>
  Claim C8, as amended.  A record in which one of the paths that the flattener reads
  without a guard does not resolve gives no row and no default value: the flattener
  raises, a \<^verbatim>\<open>TypeError\<close>, which carries no key, or a \<^verbatim>\<open>KeyError\<close> with one key.  And
  when such a path is missing because its last key has been removed from a record that
  flattens, the exception is the \<^verbatim>\<open>KeyError\<close> with that last key: the key, not the path.
\<close>

theorem missing_required_path_raises:
  assumes "p \<in> set required_paths"
  shows "(isl (resolve r p)
            \<longrightarrow> (\<exists>err. json_to_dataframe r = Inl err \<and> single_key_error err))
       \<and> (json_to_dataframe r = Inr df
            \<longrightarrow> json_to_dataframe (remove_key p r) = Inl (KeyError (JStr (last p))))"
proof (intro conjI impI)
  assume absent: "isl (resolve r p)"
  show "\<exists>err. json_to_dataframe r = Inl err \<and> single_key_error err"
  proof (cases "json_to_dataframe r")
    case (Inl err)
    then show ?thesis by (simp add: flatten_error_shape)
  next
    case (Inr df')
    from flatten_requires [OF this assms] absent show ?thesis by auto
  qed
next
  assume "json_to_dataframe r = Inr df"
  then show "json_to_dataframe (remove_key p r) = Inl (KeyError (JStr (last p)))"
    using assms by (rule flatten_key_removed)
qed

theorem missing_required_path_raises_witness:
  "[''data'', ''attributes'', ''registration'', ''managingLou''] \<in> set required_paths
   \<and> isl (resolve (remove_key [''data'', ''attributes'', ''registration'', ''managingLou'']
                    (sample_record (JArr []) (JArr []) JNull JNull))
             [''data'', ''attributes'', ''registration'', ''managingLou''])
   \<and> \<not> isl (json_to_dataframe (sample_record (JArr []) (JArr []) JNull JNull))
   \<and> json_to_dataframe
        (remove_key [''data'', ''attributes'', ''registration'', ''managingLou'']
           (sample_record (JArr []) (JArr []) JNull JNull))
      = Inl (KeyError (JStr ''managingLou''))
   \<and> single_key_error (KeyError (JStr ''managingLou''))"
proof -
  let ?p = "[''data'', ''attributes'', ''registration'', ''managingLou'']"
  let ?s = "sample_record (JArr []) (JArr []) JNull JNull"
  let ?r = "remove_key ?p ?s"
  have 1: "?p \<in> set required_paths" by code_simp
  have 2: "isl (resolve ?r ?p)" by code_simp
  have 3: "\<not> isl (json_to_dataframe ?s)" by code_simp
  then obtain df where ok: "json_to_dataframe ?s = Inr df"
    by (cases "json_to_dataframe ?s") auto
  from missing_required_path_raises [OF 1, of ?s df] ok
  have 4: "json_to_dataframe ?r = Inl (KeyError (JStr ''managingLou''))" by simp
  from missing_required_path_raises [OF 1, of ?r df] 2 4
  have 5: "single_key_error (KeyError (JStr ''managingLou''))" by auto
  from 1 2 3 4 5 show ?thesis by blast
qed

text \<open>
  Claim C8 as the specification states it fails.  The sample record without the language
  of its legal address and the sample record without the language of its headquarters
  address raise the same exception, \<^verbatim>\<open>KeyError('language')\<close>, although each of them still
  has the path that the other lacks: the exception names a key, not the missing path.
\<close>

theorem key_error_does_not_name_path:
  "json_to_dataframe
     (remove_key [''data'', ''attributes'', ''entity'', ''legalAddress'', ''language'']
        (sample_record (JArr []) (JArr []) JNull JNull))
     = Inl (KeyError (JStr ''language''))
   \<and> json_to_dataframe
     (remove_key [''data'', ''attributes'', ''entity'', ''headquartersAddress'', ''language'']
        (sample_record (JArr []) (JArr []) JNull JNull))
     = Inl (KeyError (JStr ''language''))
   \<and> resolve
     (remove_key [''data'', ''attributes'', ''entity'', ''legalAddress'', ''language'']
        (sample_record (JArr []) (JArr []) JNull JNull))
     [''data'', ''attributes'', ''entity'', ''headquartersAddress'', ''language'']
     = Inr (JStr ''de'')
   \<and> resolve
     (remove_key [''data'', ''attributes'', ''entity'', ''headquartersAddress'', ''language'']
        (sample_record (JArr []) (JArr []) JNull JNull))
     [''data'', ''attributes'', ''entity'', ''legalAddress'', ''language'']
     = Inr (JStr ''de'')"
  by code_simp

section \<open>Records with the same content\<close>






















subsection \<open>The claim about determinism\<close>



section \<open>The claims about the fetcher and the script\<close>

text \<open>
  Claim C5, as amended.  When the exchange succeeds with status 200 and the body parses,
  \<^verbatim>\<open>get_lei_information\<close> returns the parsed body.  When the exchange succeeds with any
  other status, a status of success other than 200 among them, it returns the error
  dictionary whose message holds the status code and whose details are the text of the
  response, as received: the parsed body plays no part.
\<close>

theorem get_lei_information_status:
  "(net (lei_request lei) = Inr resp \<and> status_code resp = 200 \<and> body_json resp = Inr body
      \<longrightarrow> fst (get_lei_information net lei log) = body)
   \<and> (net (lei_request lei) = Inr resp \<and> status_code resp \<noteq> 200
      \<longrightarrow> fst (get_lei_information net lei log)
            = JObj [(''error'', JStr (''Error retrieving data (status code ''
                                      @ str_int (status_code resp) @ '').'')),
                    (''details'', JStr (text_of resp))])"
  by (simp add: get_lei_information_def)

theorem get_lei_information_status_witness:
  "fst (get_lei_information
          (net_of [(lei_request (PStr ''529900W18LQJJN6SJ336''),
                    ok_response (sample_record (JArr []) (JArr []) JNull JNull))])
          (PStr ''529900W18LQJJN6SJ336'') [])
     = sample_record (JArr []) (JArr []) JNull JNull
   \<and> fst (get_lei_information
          (net_of [(lei_request (PStr ''529900W18LQJJN6SJ336''),
                    status_response 404 ''{errors: [{status: 404}]}'')])
          (PStr ''529900W18LQJJN6SJ336'') [])
     = JObj [(''error'', JStr ''Error retrieving data (status code 404).''),
             (''details'', JStr ''{errors: [{status: 404}]}'')]"
proof -
  let ?lei = "PStr ''529900W18LQJJN6SJ336''"
  let ?body = "sample_record (JArr []) (JArr []) JNull JNull"
  let ?text = "''{errors: [{status: 404}]}''"
  let ?ok = "\<lparr>status_code = 200, text_of = ''(body)'', body_json = Inr ?body\<rparr>"
  let ?ko = "\<lparr>status_code = 404, text_of = ?text,
               body_json = Inl ''Expecting value: line 1 column 1 (char 0)''\<rparr>"
  have 1: "net_of [(lei_request ?lei, ok_response ?body)] (lei_request ?lei) = Inr ?ok"
    by (simp add: net_of_def ok_response_def)
  have 2: "net_of [(lei_request ?lei, status_response 404 ?text)] (lei_request ?lei) = Inr ?ko"
    by (simp add: net_of_def status_response_def)
  have 3: "str_int 404 = ''404''" by code_simp
  from get_lei_information_status
         [of "net_of [(lei_request ?lei, ok_response ?body)]" ?lei ?ok ?body "[]"]
       get_lei_information_status
         [of "net_of [(lei_request ?lei, status_response 404 ?text)]" ?lei ?ko JNull "[]"]
       1 2 3
  show ?thesis by simp
qed

text \<open>
  Claim C5 as the specification states it fails.  Status 203 indicates success, and the
  body of the response is a record that parses; the function tests for status 200 only
  (line 25) and returns the error dictionary, not the record.
\<close>

theorem success_status_203_gives_error:
  "fst (get_lei_information
          (net_of [(lei_request (PStr ''529900W18LQJJN6SJ336''),
                    Inr \<lparr>status_code = 203, text_of = ''(body)'',
                         body_json = Inr (sample_record (JArr []) (JArr []) JNull JNull)\<rparr>)])
          (PStr ''529900W18LQJJN6SJ336'') [])
     = JObj [(''error'', JStr ''Error retrieving data (status code 203).''),
             (''details'', JStr ''(body)'')]
   \<and> fst (get_lei_information
          (net_of [(lei_request (PStr ''529900W18LQJJN6SJ336''),
                    Inr \<lparr>status_code = 203, text_of = ''(body)'',
                         body_json = Inr (sample_record (JArr []) (JArr []) JNull JNull)\<rparr>)])
          (PStr ''529900W18LQJJN6SJ336'') [])
     \<noteq> sample_record (JArr []) (JArr []) JNull JNull"
proof -
  have "str_int 203 = ''203''" by code_simp
  then show ?thesis
    by (simp add: get_lei_information_def net_of_def sample_record_def)
qed

text \<open>
  Claim C7.  When the primary fetch fails, by an exception of the transport or with a
  status other than 200, the run shows the two messages of the error and nothing else: no
  frame of the company, no heading of the relationships.  The only request sent is the
  primary one, so no relationship link is fetched, and the run ends without an exception.
\<close>

theorem failed_primary_fetch_halts:
  "(net (lei_request (PStr input_lei)) = Inl e
      \<longrightarrow> main net order st_dataframe input_lei
            = \<lparr>shown = [St_error (JStr ''An error occurred during the request.''),
                         St_write (JStr e)],
               sent = [lei_request (PStr input_lei)], raised = None\<rparr>)
   \<and> (net (lei_request (PStr input_lei)) = Inr resp \<and> status_code resp \<noteq> 200
      \<longrightarrow> main net order st_dataframe input_lei
            = \<lparr>shown = [St_error (JStr (''Error retrieving data (status code ''
                                            @ str_int (status_code resp) @ '').'')),
                         St_write (JStr (text_of resp))],
               sent = [lei_request (PStr input_lei)], raised = None\<rparr>)"
  by (simp add: main_def get_lei_information_def show_error_def)

theorem failed_primary_fetch_halts_witness:
  "main (net_of []) rev shows_all ''529900W18LQJJN6SJ336''
     = \<lparr>shown = [St_error (JStr ''An error occurred during the request.''),
                  St_write (JStr ''Connection refused'')],
        sent = [lei_request (PStr ''529900W18LQJJN6SJ336'')], raised = None\<rparr>
   \<and> main (net_of [(lei_request (PStr ''529900W18LQJJN6SJ336''),
                     status_response 503 ''Service Unavailable'')])
        rev shows_all ''529900W18LQJJN6SJ336''
     = \<lparr>shown = [St_error (JStr ''Error retrieving data (status code 503).''),
                  St_write (JStr ''Service Unavailable'')],
        sent = [lei_request (PStr ''529900W18LQJJN6SJ336'')], raised = None\<rparr>"
proof -
  let ?lei = "''529900W18LQJJN6SJ336''"
  let ?ko = "\<lparr>status_code = 503, text_of = ''Service Unavailable'',
               body_json = Inl ''Expecting value: line 1 column 1 (char 0)''\<rparr>"
  let ?net = "net_of [(lei_request (PStr ?lei), status_response 503 ''Service Unavailable'')]"
  have 1: "net_of [] (lei_request (PStr ?lei)) = Inl ''Connection refused''"
    by (simp add: net_of_def)
  have 2: "?net (lei_request (PStr ?lei)) = Inr ?ko"
    by (simp add: net_of_def status_response_def)
  have 3: "str_int 503 = ''503''" by code_simp
  from failed_primary_fetch_halts
         [where net = "net_of []" and input_lei = ?lei and e = "''Connection refused''"
            and order = rev and st_dataframe = shows_all and resp = ?ko]
       failed_primary_fetch_halts
         [where net = ?net and input_lei = ?lei and e = "''''"
            and order = rev and st_dataframe = shows_all and resp = ?ko] 1 2 3
  show ?thesis by simp
qed

text \<open>
  Claim C10.  The script tells a failed fetch from a record by the key \<^verbatim>\<open>error\<close> alone.
  When the response has status 200 and its parsed body is a dictionary with the key
  \<^verbatim>\<open>error\<close>, the run shows the value under that key as an error, then the value under
  \<^verbatim>\<open>details\<close> (or ends with \<^verbatim>\<open>KeyError('details')\<close> when the body has no such key); it
  shows no frame and sends no other request.  When the dictionary has no key
  \<^verbatim>\<open>error\<close>, the run flattens it, shows the frame unless the display refuses it, and
  goes on to the relationships.
\<close>

theorem error_key_decides_failure:
  assumes "net (lei_request (PStr input_lei)) = Inr resp"
    and "status_code resp = 200"
    and "body_json resp = Inr (JObj kvs)"
  shows "(map_of kvs ''error'' = Some v
           \<longrightarrow> main net order st_dataframe input_lei
                 = \<lparr>shown = St_error v
                             # (case map_of kvs ''details'' of
                                  None \<Rightarrow> [] | Some d \<Rightarrow> [St_write d]),
                    sent = [lei_request (PStr input_lei)],
                    raised = (case map_of kvs ''details'' of
                                None \<Rightarrow> Some (KeyError (JStr ''details'')) | Some d \<Rightarrow> None)\<rparr>)
       \<and> (map_of kvs ''error'' = None
           \<longrightarrow> main net order st_dataframe input_lei
                 = (case json_to_dataframe (JObj kvs) of
                      Inl err \<Rightarrow>
                        \<lparr>shown = [St_subheader ''Company Information''],
                         sent = [lei_request (PStr input_lei)], raised = Some err\<rparr>
                    | Inr company_df \<Rightarrow>
                        (case st_dataframe company_df of
                           Some err \<Rightarrow>
                             \<lparr>shown = [St_subheader ''Company Information''],
                              sent = [lei_request (PStr input_lei)], raised = Some err\<rparr>
                         | None \<Rightarrow>
                             relationships_section net order st_dataframe (JObj kvs) input_lei
                               \<lparr>shown = [St_subheader ''Company Information'',
                                         St_dataframe company_df],
                                sent = [lei_request (PStr input_lei)], raised = None\<rparr>)))"
  using assms
  by (auto simp: main_def get_lei_information_def show_error_def split: option.splits)

theorem error_key_decides_failure_witness:
  "main (net_of [(lei_request (PStr ''529900W18LQJJN6SJ336''),
                  ok_response (JObj [(''error'', JStr ''upstream notice''),
                                     (''data'', JObj [(''attributes'', JObj [])])]))])
        rev shows_all ''529900W18LQJJN6SJ336''
     = \<lparr>shown = [St_error (JStr ''upstream notice'')],
        sent = [lei_request (PStr ''529900W18LQJJN6SJ336'')],
        raised = Some (KeyError (JStr ''details''))\<rparr>
   \<and> main (net_of [(lei_request (PStr ''529900W18LQJJN6SJ336''),
                  ok_response (JObj [(''data'', JObj [(''attributes'', JObj [])])]))])
        rev shows_all ''529900W18LQJJN6SJ336''
     = \<lparr>shown = [St_subheader ''Company Information''],
        sent = [lei_request (PStr ''529900W18LQJJN6SJ336'')],
        raised = Some (KeyError (JStr ''entity''))\<rparr>"
proof -
  let ?lei = "''529900W18LQJJN6SJ336''"
  let ?kvs0 = "[(''data'', JObj [(''attributes'', JObj [])])]"
  let ?kvs1 = "(''error'', JStr ''upstream notice'') # ?kvs0"
  let ?net0 = "net_of [(lei_request (PStr ?lei), ok_response (JObj ?kvs0))]"
  let ?net1 = "net_of [(lei_request (PStr ?lei), ok_response (JObj ?kvs1))]"
  let ?r0 = "\<lparr>status_code = 200, text_of = ''(body)'', body_json = Inr (JObj ?kvs0)\<rparr>"
  let ?r1 = "\<lparr>status_code = 200, text_of = ''(body)'', body_json = Inr (JObj ?kvs1)\<rparr>"
  have n0: "?net0 (lei_request (PStr ?lei)) = Inr ?r0"
    by (simp add: net_of_def ok_response_def)
  have n1: "?net1 (lei_request (PStr ?lei)) = Inr ?r1"
    by (simp add: net_of_def ok_response_def)
  have f: "json_to_dataframe (JObj ?kvs0) = Inl (KeyError (JStr ''entity''))"
    by code_simp
  from error_key_decides_failure
         [where net = ?net1 and input_lei = ?lei and resp = ?r1 and kvs = ?kvs1
            and v = "JStr ''upstream notice''" and order = rev and st_dataframe = shows_all] n1
  have 1: "main ?net1 rev shows_all ?lei
     = \<lparr>shown = [St_error (JStr ''upstream notice'')],
        sent = [lei_request (PStr ?lei)], raised = Some (KeyError (JStr ''details''))\<rparr>"
    by simp
  from error_key_decides_failure
         [where net = ?net0 and input_lei = ?lei and resp = ?r0 and kvs = ?kvs0
            and v = JNull and order = rev and st_dataframe = shows_all] n0 f
  have 0: "main ?net0 rev shows_all ?lei
     = \<lparr>shown = [St_subheader ''Company Information''],
        sent = [lei_request (PStr ?lei)], raised = Some (KeyError (JStr ''entity''))\<rparr>"
    by simp
  from 0 1 show ?thesis by simp
qed

section \<open>Facts about the resolver\<close>

text \<open>
  Whether the loop over the relationships ends with an exception does not depend on the
  network: a failed request only changes the entry that is recorded for its relationship.
\<close>

lemma fetch_loop_network_independent:
  "isl (fst (fetch_loop net items results log)) = isl (fst (fetch_loop net' items results' log'))"
proof (induction items arbitrary: results log results' log')
  case Nil
  then show ?case by simp
next
  case (Cons item items)
  obtain rel_name rel_data where "item = (rel_name, rel_data)" by (cases item)
  with Cons.IH show ?case by (auto split: sum.splits)
qed

lemma py_get_InlD: "py_get v k d = Inl e \<Longrightarrow> e = AttributeError"
  by (cases v) (auto split: option.splits)

lemma entry_lei_InlD: "entry_lei x = Inl e \<Longrightarrow> e = AttributeError"
  by (auto simp: entry_lei_def and_then_Inl dest: py_get_InlD)

lemma entries_loop_InlD: "entries_loop es i acc = Inl e \<Longrightarrow> e = AttributeError"
  by (induction es arbitrary: acc) (auto split: sum.splits dest: entry_lei_InlD)

text \<open>A \<^verbatim>\<open>NaN\<close> in the column ends the loop of the extraction with \<^verbatim>\<open>AttributeError\<close>.\<close>

lemma cells_loop_InlD: "cells_loop cs i acc = Inl e \<Longrightarrow> e = AttributeError"
proof (induction cs i acc rule: cells_loop.induct)
  case (1 i acc)
  then show ?case by simp
next
  case (2 rest i acc)
  then show ?case by simp
next
  case (3 relationship rest i acc)
  then show ?case
    by (auto split: sum.splits json.splits dest: py_get_InlD entry_lei_InlD entries_loop_InlD)
qed

lemma cells_loop_NaN: "NaN \<in> set cs \<Longrightarrow> cells_loop cs i acc = Inl AttributeError"
proof (induction cs i acc rule: cells_loop.induct)
  case (1 i acc)
  then show ?case by simp
next
  case (2 rest i acc)
  then show ?case by simp
next
  case (3 relationship rest i acc)
  then have "NaN \<in> set rest" by simp
  with 3 show ?case
    by (auto split: sum.splits json.splits dest: py_get_InlD entry_lei_InlD entries_loop_InlD)
qed

lemma failed_entry_breaks_extraction:
  assumes "Failed n l e \<in> set relationship_df"
  shows "and_then (data_column relationship_df) (\<lambda>d. extract_related_leis order d input_lei)
           = (if list_ex is_fetched relationship_df then Inl AttributeError
              else Inl (KeyError (JStr ''Data'')))"
proof -
  from assms have "data_cell (Failed n l e) \<in> data_cell ` set relationship_df"
    by (rule imageI)
  then have "NaN \<in> set (map data_cell relationship_df)" by simp
  then have "cells_loop (map data_cell relationship_df) input_lei [] = Inl AttributeError"
    by (rule cells_loop_NaN)
  then show ?thesis
    by (simp add: data_column_def and_then_def extract_related_leis_def)
qed

lemma keep_lei_kept:
  "\<forall>x \<in> set acc. kept i x \<Longrightarrow> \<forall>x \<in> set (keep_lei lei i acc). kept i x"
  by (auto simp: keep_lei_def kept_def)

lemma entries_loop_kept:
  "entries_loop es i acc = Inr acc' \<Longrightarrow> \<forall>x \<in> set acc. kept i x \<Longrightarrow> \<forall>x \<in> set acc'. kept i x"
proof (induction es arbitrary: acc)
  case Nil
  then show ?case by simp
next
  case (Cons entry es)
  from Cons.prems(1) obtain lei where
    "entries_loop es i (keep_lei lei i acc) = Inr acc'"
    by (auto split: sum.splits)
  from Cons.IH [OF this keep_lei_kept [OF Cons.prems(2)]] show ?case .
qed

lemma cells_loop_kept:
  "cells_loop cs i acc = Inr acc' \<Longrightarrow> \<forall>x \<in> set acc. kept i x \<Longrightarrow> \<forall>x \<in> set acc'. kept i x"
proof (induction cs i acc rule: cells_loop.induct)
  case (1 i acc)
  then show ?case by simp
next
  case (2 rest i acc)
  then show ?case by simp
next
  case (3 relationship rest i acc)
  from "3.prems"(1) obtain data_field where
    d: "py_get relationship ''data'' JNull = Inr data_field"
    by (auto split: sum.splits)
  show ?case
  proof (cases data_field)
    case (JArr entries)
    with "3.prems"(1) d obtain acc1 where
      e: "entries_loop entries i acc = Inr acc1" and r: "cells_loop rest i acc1 = Inr acc'"
      by (auto split: sum.splits)
    from entries_loop_kept [OF e "3.prems"(2)] have "\<forall>x \<in> set acc1. kept i x" .
    from "3.IH"(5) [OF d JArr e r this] show ?thesis .
  next
    case (JObj kvs)
    with "3.prems"(1) d obtain lei where
      e: "entry_lei data_field = Inr lei"
      and r: "cells_loop rest i (keep_lei lei i acc) = Inr acc'"
      by (auto split: sum.splits)
    from "3.IH"(6) [OF d JObj e r keep_lei_kept [OF "3.prems"(2)]] show ?thesis .
  next
    case JNull
    with "3.prems" d "3.IH"(1) show ?thesis by auto
  next
    case (JBool b)
    with "3.prems" d "3.IH"(2) show ?thesis by auto
  next
    case (JInt n)
    with "3.prems" d "3.IH"(3) show ?thesis by auto
  next
    case (JStr s)
    with "3.prems" d "3.IH"(4) show ?thesis by auto
  qed
qed

lemma py_eq_refl: "py_eq h h"
  by (cases h) auto

lemma py_eq_sym: "py_eq a b \<Longrightarrow> py_eq b a"
  by (cases a; cases b) (auto split: if_splits)

lemma py_eq_PStr: "py_eq y (PStr s) \<Longrightarrow> y = PStr s"
  by (cases y) auto

text \<open>A set as a list: no element twice, and no two elements that Python finds equal.\<close>

lemma set_add_distinct:
  assumes "distinct s" and "\<forall>x \<in> set s. \<forall>y \<in> set s. py_eq x y \<longrightarrow> x = y"
  shows "distinct (set_add s h) \<and> (\<forall>x \<in> set (set_add s h). \<forall>y \<in> set (set_add s h). py_eq x y \<longrightarrow> x = y)"
proof (cases "list_ex (\<lambda>y. py_eq y h) s")
  case True
  with assms show ?thesis by (simp add: set_add_def)
next
  case False
  then have no: "\<forall>y \<in> set s. \<not> py_eq y h" by (simp add: list_ex_iff)
  then have "h \<notin> set s" using py_eq_refl by blast
  moreover from no have "\<forall>y \<in> set s. \<not> py_eq h y" using py_eq_sym by blast
  ultimately show ?thesis using assms no False by (auto simp: set_add_def)
qed

lemma set_add_set: "set (set_add s h) \<subseteq> insert h (set s)" "set s \<subseteq> set (set_add s h)"
  by (auto simp: set_add_def)

lemma set_add_covers: "\<exists>y \<in> set (set_add s h). py_eq y h"
  by (auto simp: set_add_def list_ex_iff py_eq_refl)

lemma build_set_distinct:
  "build_set xs s = Inr out \<Longrightarrow> distinct s
   \<Longrightarrow> \<forall>x \<in> set s. \<forall>y \<in> set s. py_eq x y \<longrightarrow> x = y
   \<Longrightarrow> distinct out \<and> (\<forall>x \<in> set out. \<forall>y \<in> set out. py_eq x y \<longrightarrow> x = y)"
proof (induction xs arbitrary: s)
  case Nil
  then show ?case by simp
next
  case (Cons x xs)
  from Cons.prems(1) obtain h where h: "hashable x = Some h"
    and rest: "build_set xs (set_add s h) = Inr out"
    by (auto split: option.splits)
  from set_add_distinct [OF Cons.prems(2,3), of h] Cons.IH [OF rest] show ?case by blast
qed

lemma build_set_mono: "build_set xs s = Inr out \<Longrightarrow> set s \<subseteq> set out"
proof (induction xs arbitrary: s)
  case Nil
  then show ?case by simp
next
  case (Cons x xs)
  from Cons.prems obtain h where "build_set xs (set_add s h) = Inr out"
    by (auto split: option.splits)
  from Cons.IH [OF this] set_add_set(2) [of s h] show ?case by blast
qed

lemma build_set_from:
  "build_set xs s = Inr out \<Longrightarrow> h \<in> set out
   \<Longrightarrow> h \<in> set s \<or> (\<exists>x \<in> set xs. hashable x = Some h)"
proof (induction xs arbitrary: s)
  case Nil
  then show ?case by simp
next
  case (Cons x xs)
  from Cons.prems(1) obtain h' where h': "hashable x = Some h'"
    and rest: "build_set xs (set_add s h') = Inr out"
    by (auto split: option.splits)
  from Cons.IH [OF rest Cons.prems(2)] set_add_set(1) [of s h'] h' show ?case by auto
qed

lemma build_set_covers:
  "build_set xs s = Inr out \<Longrightarrow> x \<in> set xs \<Longrightarrow> hashable x = Some h
   \<Longrightarrow> \<exists>y \<in> set out. py_eq y h"
proof (induction xs arbitrary: s)
  case Nil
  then show ?case by simp
next
  case (Cons x' xs)
  from Cons.prems(1) obtain h' where h': "hashable x' = Some h'"
    and rest: "build_set xs (set_add s h') = Inr out"
    by (auto split: option.splits)
  show ?case
  proof (cases "x = x'")
    case True
    with h' Cons.prems(3) have "h' = h" by simp
    with set_add_covers [of s h'] build_set_mono [OF rest] show ?thesis by blast
  next
    case False
    with Cons.prems(2) have "x \<in> set xs" by simp
    from Cons.IH [OF rest this Cons.prems(3)] show ?thesis .
  qed
qed

lemma count_list_distinct: "distinct xs \<Longrightarrow> x \<in> set xs \<Longrightarrow> count_list xs x = 1"
  by (induction xs) auto

lemma extract_related_leis_InrD:
  assumes "extract_related_leis order cs i = Inr out"
  obtains leis s where "cells_loop cs i [] = Inr leis" "build_set leis [] = Inr s"
    "out = order s" "\<forall>x \<in> set leis. kept i x"
proof -
  from assms obtain leis s where l: "cells_loop cs i [] = Inr leis"
    and s: "build_set leis [] = Inr s" and o: "out = order s"
    by (auto simp: extract_related_leis_def split: sum.splits)
  from cells_loop_kept [OF l] have "\<forall>x \<in> set leis. kept i x" by simp
  with l s o that show thesis by blast
qed

text \<open>The loops collect every identifier that a payload mentions.\<close>

lemma has_lei_entry_lei: "has_lei s x \<Longrightarrow> entry_lei x = Inr (JStr s)"
proof -
  assume "has_lei s x"
  then obtain a where a: "subscript x ''attributes'' = Inr a"
    and l: "subscript a ''lei'' = Inr (JStr s)"
    by (auto simp: has_lei_def split: sum.splits)
  from a have "py_get x ''attributes'' (JObj []) = Inr a"
    by (cases x) (auto split: option.splits)
  moreover from l have "py_get a ''lei'' JNull = Inr (JStr s)"
    by (cases a) (auto split: option.splits)
  ultimately show ?thesis by (simp add: entry_lei_def and_then_def)
qed

lemma keep_lei_mono: "set acc \<subseteq> set (keep_lei lei i acc)"
  by (auto simp: keep_lei_def)

lemma keep_lei_adds: "s \<noteq> [] \<Longrightarrow> s \<noteq> i \<Longrightarrow> JStr s \<in> set (keep_lei (JStr s) i acc)"
  by (simp add: keep_lei_def)

lemma entries_loop_mono: "entries_loop es i acc = Inr acc' \<Longrightarrow> set acc \<subseteq> set acc'"
proof (induction es arbitrary: acc)
  case Nil
  then show ?case by simp
next
  case (Cons entry es)
  from Cons.prems obtain lei where "entries_loop es i (keep_lei lei i acc) = Inr acc'"
    by (auto split: sum.splits)
  from Cons.IH [OF this] keep_lei_mono [of acc lei i] show ?case by blast
qed

lemma entries_loop_collects:
  "entries_loop es i acc = Inr acc' \<Longrightarrow> entry \<in> set es \<Longrightarrow> has_lei s entry
   \<Longrightarrow> s \<noteq> [] \<Longrightarrow> s \<noteq> i \<Longrightarrow> JStr s \<in> set acc'"
proof (induction es arbitrary: acc)
  case Nil
  then show ?case by simp
next
  case (Cons x es)
  from Cons.prems(1) obtain lei where x: "entry_lei x = Inr lei"
    and rest: "entries_loop es i (keep_lei lei i acc) = Inr acc'"
    by (auto split: sum.splits)
  show ?case
  proof (cases "entry = x")
    case True
    with has_lei_entry_lei [OF Cons.prems(3)] x have "lei = JStr s" by simp
    with keep_lei_adds [OF Cons.prems(4,5), of acc] entries_loop_mono [OF rest]
    show ?thesis by blast
  next
    case False
    with Cons.prems(2) have "entry \<in> set es" by simp
    from Cons.IH [OF rest this Cons.prems(3,4,5)] show ?thesis .
  qed
qed

lemma cells_loop_step:
  assumes "cells_loop (Cell payload # rest) i acc = Inr acc'"
  shows "\<exists>acc1. cells_loop rest i acc1 = Inr acc' \<and> set acc \<subseteq> set acc1
           \<and> (\<forall>s. payload_mentions s payload \<and> s \<noteq> [] \<and> s \<noteq> i \<longrightarrow> JStr s \<in> set acc1)"
proof -
  from assms obtain data_field where d: "py_get payload ''data'' JNull = Inr data_field"
    by (auto split: sum.splits)
  have r: "resolve payload [''data''] = Inr v \<Longrightarrow> v = data_field" for v
    using d by (cases payload) (auto split: option.splits sum.splits)
  show ?thesis
  proof (cases data_field)
    case (JArr entries)
    with assms d obtain acc1 where e: "entries_loop entries i acc = Inr acc1"
      and c: "cells_loop rest i acc1 = Inr acc'"
      by (auto split: sum.splits)
    have "JStr s \<in> set acc1" if "payload_mentions s payload" "s \<noteq> []" "s \<noteq> i" for s
    proof -
      from that(1) r JArr have "list_ex (has_lei s) entries"
        by (auto simp: payload_mentions_def split: sum.splits json.splits)
      then obtain entry where "entry \<in> set entries" "has_lei s entry"
        by (auto simp: list_ex_iff)
      from entries_loop_collects [OF e this that(2,3)] show ?thesis .
    qed
    with c entries_loop_mono [OF e] show ?thesis by blast
  next
    case (JObj kvs)
    with assms d obtain lei where l: "entry_lei data_field = Inr lei"
      and c: "cells_loop rest i (keep_lei lei i acc) = Inr acc'"
      by (auto split: sum.splits)
    have "JStr s \<in> set (keep_lei lei i acc)"
      if "payload_mentions s payload" "s \<noteq> []" "s \<noteq> i" for s
    proof -
      from that(1) r JObj have "has_lei s data_field"
        by (auto simp: payload_mentions_def split: sum.splits json.splits)
      with has_lei_entry_lei l have "lei = JStr s" by fastforce
      with keep_lei_adds [OF that(2,3)] show ?thesis by simp
    qed
    with c keep_lei_mono [of acc lei i] show ?thesis by blast
  next
    case JNull
    with assms d r show ?thesis
      by (auto simp: payload_mentions_def split: sum.splits json.splits)
  next
    case (JBool b)
    with assms d r show ?thesis
      by (auto simp: payload_mentions_def split: sum.splits json.splits)
  next
    case (JInt n)
    with assms d r show ?thesis
      by (auto simp: payload_mentions_def split: sum.splits json.splits)
  next
    case (JStr t)
    with assms d r show ?thesis
      by (auto simp: payload_mentions_def split: sum.splits json.splits)
  qed
qed

lemma cells_loop_mono: "cells_loop cs i acc = Inr acc' \<Longrightarrow> set acc \<subseteq> set acc'"
proof (induction cs arbitrary: acc)
  case Nil
  then show ?case by simp
next
  case (Cons c cs)
  show ?case
  proof (cases c)
    case NaN
    with Cons.prems show ?thesis by simp
  next
    case (Cell payload)
    with cells_loop_step [of payload cs i acc acc'] Cons.prems obtain acc1 where
      "cells_loop cs i acc1 = Inr acc'" "set acc \<subseteq> set acc1" by blast
    with Cons.IH [of acc1] show ?thesis by blast
  qed
qed

lemma cells_loop_collects:
  "cells_loop cs i acc = Inr acc' \<Longrightarrow> Cell payload \<in> set cs \<Longrightarrow> payload_mentions s payload
   \<Longrightarrow> s \<noteq> [] \<Longrightarrow> s \<noteq> i \<Longrightarrow> JStr s \<in> set acc'"
proof (induction cs arbitrary: acc)
  case Nil
  then show ?case by simp
next
  case (Cons c cs)
  show ?case
  proof (cases c)
    case NaN
    with Cons.prems show ?thesis by simp
  next
    case (Cell p)
    with cells_loop_step [of p cs i acc acc'] Cons.prems(1) obtain acc1 where
      c: "cells_loop cs i acc1 = Inr acc'"
      and m: "\<forall>s. payload_mentions s p \<and> s \<noteq> [] \<and> s \<noteq> i \<longrightarrow> JStr s \<in> set acc1"
      by blast
    show ?thesis
    proof (cases "p = payload")
      case True
      with m Cons.prems(3,4,5) have "JStr s \<in> set acc1" by blast
      with cells_loop_mono [OF c] show ?thesis by blast
    next
      case False
      with Cell Cons.prems(2) have "Cell payload \<in> set cs" by simp
      from Cons.IH [OF c this Cons.prems(3,4,5)] show ?thesis .
    qed
  qed
qed

lemma rearranges_rev: "rearranges rev"
  by (simp add: rearranges_def)

lemma extract_related_leis_set:
  assumes "rearranges order" and "extract_related_leis order cs i = Inr out"
  obtains leis s where "cells_loop cs i [] = Inr leis" "build_set leis [] = Inr s"
    "\<forall>x \<in> set leis. kept i x" "distinct s" "distinct out" "set out = set s"
    "\<forall>x \<in> set s. \<forall>y \<in> set s. py_eq x y \<longrightarrow> x = y"
proof -
  from assms(2) obtain leis s where l: "cells_loop cs i [] = Inr leis"
    and s: "build_set leis [] = Inr s" and o: "out = order s"
    and k: "\<forall>x \<in> set leis. kept i x"
    by (rule extract_related_leis_InrD)
  from build_set_distinct [OF s] have d: "distinct s"
    and e: "\<forall>x \<in> set s. \<forall>y \<in> set s. py_eq x y \<longrightarrow> x = y"
    by simp_all
  from assms(1) d o have "distinct out" "set out = set s"
    by (simp_all add: rearranges_def)
  with l s k d e that show thesis by blast
qed

section \<open>The claims about the resolver\<close>

text \<open>
  Claim C2.  Whatever the cells of the column hold, and in whatever order the set lists
  its elements, a list that \<^verbatim>\<open>extract_related_leis\<close> returns contains neither the input
  identifier nor the empty string nor \<^verbatim>\<open>None\<close>.
\<close>

theorem extract_excludes_input_and_empty:
  assumes "rearranges order"
    and "extract_related_leis order relationship_data input_lei = Inr out"
  shows "PStr input_lei \<notin> set out \<and> PStr [] \<notin> set out \<and> PNone \<notin> set out"
proof -
  from assms obtain leis s where s: "build_set leis [] = Inr s"
    and k: "\<forall>x \<in> set leis. kept input_lei x" and o: "set out = set s"
    by (rule extract_related_leis_set)
  have "\<exists>x. kept input_lei x \<and> hashable x = Some h" if "h \<in> set out" for h
    using build_set_from [OF s, of h] that o k by auto
  moreover have "h \<noteq> PStr input_lei \<and> h \<noteq> PStr [] \<and> h \<noteq> PNone"
    if "kept input_lei x" "hashable x = Some h" for x h
    using that by (cases x) (auto simp: kept_def)
  ultimately show ?thesis by blast
qed

theorem extract_excludes_input_and_empty_witness:
  "extract_related_leis rev
     [Cell (JObj [(''data'', one_lei ''529900W18LQJJN6SJ336'')]),
      Cell (JObj [(''data'', JArr [one_lei ''5299000J2N45DDNE4Y28'', one_lei [],
                                   JObj [(''type'', JStr ''lei-records'')],
                                   one_lei ''529900W18LQJJN6SJ336''])])]
     ''529900W18LQJJN6SJ336''
     = Inr [PStr ''5299000J2N45DDNE4Y28'']
   \<and> PStr ''529900W18LQJJN6SJ336'' \<notin> set [PStr ''5299000J2N45DDNE4Y28'']
   \<and> PStr [] \<notin> set [PStr ''5299000J2N45DDNE4Y28'']
   \<and> PNone \<notin> set [PStr ''5299000J2N45DDNE4Y28'']"
proof -
  let ?cells = "[Cell (JObj [(''data'', one_lei ''529900W18LQJJN6SJ336'')]),
      Cell (JObj [(''data'', JArr [one_lei ''5299000J2N45DDNE4Y28'', one_lei [],
                                   JObj [(''type'', JStr ''lei-records'')],
                                   one_lei ''529900W18LQJJN6SJ336''])])]"
  have 1: "extract_related_leis rev ?cells ''529900W18LQJJN6SJ336''
             = Inr [PStr ''5299000J2N45DDNE4Y28'']"
    by code_simp
  from extract_excludes_input_and_empty [OF rearranges_rev 1] 1 show ?thesis by blast
qed

text \<open>
  Claim C3.  In whatever order the set lists its elements, a list that
  \<^verbatim>\<open>extract_related_leis\<close> returns has no element twice, nor two elements that Python
  finds equal; and an identifier that a payload of the column mentions, in one payload or
  in several, is in the list exactly once (unless it is empty or the input identifier).
\<close>

theorem extract_no_duplicates:
  assumes "rearranges order"
    and "extract_related_leis order relationship_data input_lei = Inr out"
  shows "distinct out
     \<and> (\<forall>x \<in> set out. \<forall>y \<in> set out. py_eq x y \<longrightarrow> x = y)
     \<and> (\<forall>payload s. Cell payload \<in> set relationship_data \<and> payload_mentions s payload
            \<and> s \<noteq> [] \<and> s \<noteq> input_lei \<longrightarrow> count_list out (PStr s) = 1)"
proof -
  from assms obtain leis s where l: "cells_loop relationship_data input_lei [] = Inr leis"
    and s: "build_set leis [] = Inr s"
    and d: "distinct out" and o: "set out = set s"
    and e: "\<forall>x \<in> set s. \<forall>y \<in> set s. py_eq x y \<longrightarrow> x = y"
    by (rule extract_related_leis_set)
  have "count_list out (PStr s') = 1"
    if "Cell payload \<in> set relationship_data" "payload_mentions s' payload"
      "s' \<noteq> []" "s' \<noteq> input_lei" for payload s'
  proof -
    from cells_loop_collects [OF l that] have "JStr s' \<in> set leis" .
    from build_set_covers [OF s this, of "PStr s'"] obtain y where
      "y \<in> set s" "py_eq y (PStr s')" by auto
    then have "PStr s' \<in> set out" using o by (auto dest: py_eq_PStr)
    with d show ?thesis by (rule count_list_distinct)
  qed
  with d e o show ?thesis by auto
qed

theorem extract_no_duplicates_witness:
  "payload_mentions ''5299000J2N45DDNE4Y28'' (JObj [(''data'', one_lei ''5299000J2N45DDNE4Y28'')])
   \<and> payload_mentions ''5299000J2N45DDNE4Y28''
        (JObj [(''data'', JArr [one_lei ''213800WAVVOPS85N2205'',
                                one_lei ''5299000J2N45DDNE4Y28''])])
   \<and> (case extract_related_leis rev
             [Cell (JObj [(''data'', one_lei ''5299000J2N45DDNE4Y28'')]),
              Cell (JObj [(''data'', JArr [one_lei ''213800WAVVOPS85N2205'',
                                           one_lei ''5299000J2N45DDNE4Y28''])])]
             ''529900W18LQJJN6SJ336'' of
         Inl e \<Rightarrow> False
       | Inr out \<Rightarrow> distinct out
           \<and> count_list out (PStr ''5299000J2N45DDNE4Y28'') = 1
           \<and> count_list out (PStr ''213800WAVVOPS85N2205'') = 1)"
proof -
  let ?p1 = "JObj [(''data'', one_lei ''5299000J2N45DDNE4Y28'')]"
  let ?p2 = "JObj [(''data'', JArr [one_lei ''213800WAVVOPS85N2205'',
                                   one_lei ''5299000J2N45DDNE4Y28''])]"
  let ?cells = "[Cell ?p1, Cell ?p2]"
  let ?i = "''529900W18LQJJN6SJ336''"
  have "\<not> isl (extract_related_leis rev ?cells ?i)" by code_simp
  then obtain out where 1: "extract_related_leis rev ?cells ?i = Inr out"
    by (cases "extract_related_leis rev ?cells ?i") auto
  have m1: "payload_mentions ''5299000J2N45DDNE4Y28'' ?p1" by code_simp
  have m2: "payload_mentions ''5299000J2N45DDNE4Y28'' ?p2" by code_simp
  have m3: "payload_mentions ''213800WAVVOPS85N2205'' ?p2" by code_simp
  from extract_no_duplicates [OF rearranges_rev 1] m1 m3
  have "distinct out \<and> count_list out (PStr ''5299000J2N45DDNE4Y28'') = 1
          \<and> count_list out (PStr ''213800WAVVOPS85N2205'') = 1"
    by auto
  with 1 m1 m2 show ?thesis by simp
qed

text \<open>
  Claim C1 does not hold of the code.  The sample record has two relationships with a
  link; the link of the managing LOU answers with a payload, the link of the direct parent
  with status 404; the display accepts the frame of the company.  The resolver does record
  one entry for each relationship, the second with the error.  But the column \<^verbatim>\<open>Data\<close> of the frame then holds \<^verbatim>\<open>NaN\<close> in the row of the failed
  relationship, on which the extraction raises \<^verbatim>\<open>AttributeError\<close>: the run ends there,
  and the identifier of the payload that was fetched (which the extraction yields from
  that payload alone) is never shown.
\<close>

theorem failed_relationship_aborts_extraction:
  "fetch_relationship_data
     (net_of [(lei_request (PStr ''529900W18LQJJN6SJ336''),
               ok_response (sample_record (JArr []) (JArr []) JNull JNull)),
              (Get (JStr ''https://registry.example/lou'') [],
               ok_response (JObj [(''data'', one_lei ''5299000J2N45DDNE4Y28'')])),
              (Get (JStr ''https://registry.example/parent'') [],
               status_response 404 ''Not Found'')])
     (sample_record (JArr []) (JArr []) JNull JNull) []
     = (Inr [Fetched ''managing-lou'' (JStr ''https://registry.example/lou'')
               (JObj [(''data'', one_lei ''5299000J2N45DDNE4Y28'')]),
             Failed ''direct-parent'' (JStr ''https://registry.example/parent'')
               (HTTPError 404)],
        [Get (JStr ''https://registry.example/lou'') [],
         Get (JStr ''https://registry.example/parent'') []])
   \<and> data_column
       [Fetched ''managing-lou'' (JStr ''https://registry.example/lou'')
          (JObj [(''data'', one_lei ''5299000J2N45DDNE4Y28'')]),
        Failed ''direct-parent'' (JStr ''https://registry.example/parent'') (HTTPError 404)]
     = Inr [Cell (JObj [(''data'', one_lei ''5299000J2N45DDNE4Y28'')]), NaN]
   \<and> extract_related_leis rev
       [Cell (JObj [(''data'', one_lei ''5299000J2N45DDNE4Y28'')]), NaN]
       ''529900W18LQJJN6SJ336''
     = Inl AttributeError
   \<and> extract_related_leis rev
       [Cell (JObj [(''data'', one_lei ''5299000J2N45DDNE4Y28'')])]
       ''529900W18LQJJN6SJ336''
     = Inr [PStr ''5299000J2N45DDNE4Y28'']
   \<and> raised
       (main
          (net_of [(lei_request (PStr ''529900W18LQJJN6SJ336''),
                    ok_response (sample_record (JArr []) (JArr []) JNull JNull)),
                   (Get (JStr ''https://registry.example/lou'') [],
                    ok_response (JObj [(''data'', one_lei ''5299000J2N45DDNE4Y28'')])),
                   (Get (JStr ''https://registry.example/parent'') [],
                    status_response 404 ''Not Found'')])
          rev shows_all ''529900W18LQJJN6SJ336'')
     = Some AttributeError"
  by code_simp

end
